theory Spec2Isabelle
  imports Complex_Main
begin

section \<open>CleanVentures: venture membership and financial lifecycle\<close>

text \<open>
  A shallow embedding of the stores and handlers of the CleanVentures client:
  the permission matrix (\<^verbatim>\<open>can\<close>, \<^verbatim>\<open>PRIVILEGE_PERMISSIONS\<close>), the wallet store
  (\<^verbatim>\<open>WalletProvider\<close>), the ventures store (\<^verbatim>\<open>VenturesProvider\<close>) and the financial
  lifecycle helpers of the venture detail screen (\<^verbatim>\<open>handlePledgeDeduct\<close>,
  \<^verbatim>\<open>handleMemberRefund\<close>, \<^verbatim>\<open>handleVentureCompletion\<close>).

  Conventions of the embedding.
  \<^item> A React reducer is a pure function from a state and an action to a state, and is
    modelled as such. A \<^verbatim>\<open>dispatch\<close> applies the reducer to the store's latest state,
    so a handler that dispatches several actions is the composition of the reducer
    steps, in program order. What a handler \<^emph>\<open>reads\<close> (through the getters of the
    context) comes from the state it was started in.
  \<^item> A JavaScript \<^verbatim>\<open>number\<close> is an IEEE 754 binary64 value: the type \<open>number\<close> below.
    Amounts, balances and pitches are numbers (a pitch is read with \<^verbatim>\<open>parseFloat\<close>), and
    \<^verbatim>\<open>+\<close>, \<^verbatim>\<open>-\<close>, \<^verbatim>\<open>*\<close>, \<^verbatim>\<open>/\<close> round their exact result to the nearest binary64 value.
  \<^item> \<^verbatim>\<open>Record<string, T>\<close> is a map \<open>string \<rightharpoonup> T\<close>; \<^verbatim>\<open>m[k] ?? []\<close> is written out.
  \<^item> An optional field (\<^verbatim>\<open>status?\<close>, \<^verbatim>\<open>authUsername?\<close>) is an \<open>option\<close>.
  \<^item> \<^verbatim>\<open>Date.now()\<close> and \<^verbatim>\<open>new Date().toISOString()\<close> are read from an explicit
    environment record.
  \<^item> A template literal that prints a number is kept as its pieces, the number
    unprinted.
  \<^item> Display-only fields (avatars, ratings, images) and the task, chat, activity and
    notification stores are left out: no handler below reads them.
\<close>

subsection \<open>Enumerations (\<^verbatim>\<open>lib/mock-data\<close> types)\<close>

datatype VentureStatus = proposed | ongoing | finished

datatype UserRole = volunteer | contributing_volunteer | sponsor

datatype UserPrivilege = co_owner | admin | buyer | viewer

datatype RequestStatus = pending | approved | denied

datatype TransactionType = contribution | purchase | cashout | refund

subsection \<open>JavaScript numbers\<close>

text \<open>
  A \<^verbatim>\<open>number\<close> is a finite binary64 value, given by the rational it denotes, one of
  the two infinities, or \<^verbatim>\<open>NaN\<close>. The two zeros are one value here: \<^verbatim>\<open>===\<close>, the
  comparisons, \<^verbatim>\<open>Math.max\<close> against \<^verbatim>\<open>0\<close> and the arithmetic below give results that
  differ at most in the sign of a zero, and the one division of the source has a
  divisor that was tested to be \<^verbatim>\<open>> 0\<close>.

  \<open>Num\<close> can hold any rational. Every operation below returns a binary64 value when
  its arguments are binary64 values, because its exact result goes through the rounding
  \<open>fl\<close>; what is proved for all of \<open>number\<close> holds for the binary64 values among them.
\<close>

datatype number = Num rat | Infinity | NegInfinity | NaN

text \<open>The nearest integer, a tie going to the even one.\<close>

definition round_half_even :: "rat \<Rightarrow> int" where
  "round_half_even y =
     (let f = \<lfloor>y\<rfloor>; d = y - of_int f
      in if d < 1 / 2 then f
         else if 1 / 2 < d then f + 1
         else if even f then f else f + 1)"

text \<open>
  The spacing of the binary64 values around a magnitude \<open>a\<close>: the power of two \<open>q\<close>
  with \<^verbatim>\<open>2^52 * q <= a < 2^53 * q\<close>, not below \<^verbatim>\<open>2^-1074\<close> (the subnormal spacing) and
  not above \<^verbatim>\<open>2^971\<close> (the spacing of the largest finite values). The search starts
  at \<open>q = 1\<close> and doubles or halves; the counter is the number of steps taken.
\<close>

function quantum_up :: "rat \<Rightarrow> rat \<Rightarrow> nat \<Rightarrow> rat" where
  "quantum_up a q j =
     (if j < 971 \<and> 2 ^ 53 * q \<le> a then quantum_up a (2 * q) (Suc j) else q)"
  by pat_completeness auto
termination
  by (relation "measure (\<lambda>(a, q, j). 971 - j)") auto

function quantum_down :: "rat \<Rightarrow> rat \<Rightarrow> nat \<Rightarrow> rat" where
  "quantum_down a q j =
     (if j < 1074 \<and> a < 2 ^ 52 * q then quantum_down a (q / 2) (Suc j) else q)"
  by pat_completeness auto
termination
  by (relation "measure (\<lambda>(a, q, j). 1074 - j)") auto

declare quantum_up.simps [simp del]
declare quantum_down.simps [simp del]

definition quantum :: "rat \<Rightarrow> rat" where
  "quantum a = (if 2 ^ 53 \<le> a then quantum_up a 1 0 else quantum_down a 1 0)"

text \<open>
  Rounding an exact result to binary64, to nearest, ties to even: the magnitude is
  rounded to a multiple of its spacing, and a result of \<^verbatim>\<open>2^1024\<close> or more overflows
  to an infinity.
\<close>

definition fl :: "rat \<Rightarrow> number" where
  "fl x =
     (if x = 0 then Num 0
      else
        (let a = \<bar>x\<bar>;
             q = quantum a;
             r = of_int (round_half_even (a / q)) * q
         in if 2 ^ 1024 \<le> r then (if 0 < x then Infinity else NegInfinity)
            else Num (if 0 < x then r else - r)))"

fun js_neg :: "number \<Rightarrow> number" where
  "js_neg (Num a) = Num (- a)"
| "js_neg Infinity = NegInfinity"
| "js_neg NegInfinity = Infinity"
| "js_neg NaN = NaN"

text \<open>\<^verbatim>\<open>x + y\<close>\<close>

fun js_add :: "number \<Rightarrow> number \<Rightarrow> number" where
  "js_add (Num a) (Num b) = fl (a + b)"
| "js_add NaN y = NaN"
| "js_add x NaN = NaN"
| "js_add Infinity NegInfinity = NaN"
| "js_add NegInfinity Infinity = NaN"
| "js_add Infinity y = Infinity"
| "js_add x Infinity = Infinity"
| "js_add NegInfinity y = NegInfinity"
| "js_add x NegInfinity = NegInfinity"

text \<open>\<^verbatim>\<open>x - y\<close>\<close>

definition js_sub :: "number \<Rightarrow> number \<Rightarrow> number" where
  "js_sub x y = js_add x (js_neg y)"

text \<open>\<^verbatim>\<open>x * y\<close>\<close>

fun js_mul :: "number \<Rightarrow> number \<Rightarrow> number" where
  "js_mul (Num a) (Num b) = fl (a * b)"
| "js_mul NaN y = NaN"
| "js_mul x NaN = NaN"
| "js_mul (Num a) Infinity = (if a = 0 then NaN else if 0 < a then Infinity else NegInfinity)"
| "js_mul (Num a) NegInfinity = (if a = 0 then NaN else if 0 < a then NegInfinity else Infinity)"
| "js_mul Infinity (Num b) = (if b = 0 then NaN else if 0 < b then Infinity else NegInfinity)"
| "js_mul NegInfinity (Num b) = (if b = 0 then NaN else if 0 < b then NegInfinity else Infinity)"
| "js_mul Infinity Infinity = Infinity"
| "js_mul NegInfinity NegInfinity = Infinity"
| "js_mul Infinity NegInfinity = NegInfinity"
| "js_mul NegInfinity Infinity = NegInfinity"

text \<open>\<^verbatim>\<open>x / y\<close>; a zero divisor counts as \<^verbatim>\<open>+0\<close>.\<close>

fun js_div :: "number \<Rightarrow> number \<Rightarrow> number" where
  "js_div (Num a) (Num b) =
     (if b = 0 then (if a = 0 then NaN else if 0 < a then Infinity else NegInfinity)
      else fl (a / b))"
| "js_div NaN y = NaN"
| "js_div x NaN = NaN"
| "js_div (Num a) Infinity = Num 0"
| "js_div (Num a) NegInfinity = Num 0"
| "js_div Infinity (Num b) = (if 0 \<le> b then Infinity else NegInfinity)"
| "js_div NegInfinity (Num b) = (if 0 \<le> b then NegInfinity else Infinity)"
| "js_div Infinity y = NaN"
| "js_div NegInfinity y = NaN"

text \<open>\<^verbatim>\<open>x < y\<close>: false as soon as an operand is \<^verbatim>\<open>NaN\<close>.\<close>

fun js_lt :: "number \<Rightarrow> number \<Rightarrow> bool" where
  "js_lt (Num a) (Num b) = (a < b)"
| "js_lt NaN y = False"
| "js_lt x NaN = False"
| "js_lt x NegInfinity = False"
| "js_lt Infinity y = False"
| "js_lt NegInfinity y = True"
| "js_lt x Infinity = True"

text \<open>\<^verbatim>\<open>x > y\<close>\<close>

definition js_gt :: "number \<Rightarrow> number \<Rightarrow> bool" where
  "js_gt x y = js_lt y x"

text \<open>\<^verbatim>\<open>x <= y\<close>\<close>

definition js_le :: "number \<Rightarrow> number \<Rightarrow> bool" where
  "js_le x y = (x \<noteq> NaN \<and> y \<noteq> NaN \<and> (x = y \<or> js_lt x y))"

text \<open>\<^verbatim>\<open>Math.max(x, y)\<close>: \<^verbatim>\<open>NaN\<close> if an argument is, else the larger one.\<close>

definition Math_max :: "number \<Rightarrow> number \<Rightarrow> number" where
  "Math_max x y = (if x = NaN \<or> y = NaN then NaN else if js_lt x y then y else x)"

text \<open>
  \<^verbatim>\<open>Math.round(x)\<close>: the nearest integer, a tie going up. For a binary64 \<open>x\<close> that
  integer is a binary64 value again, so nothing is rounded a second time.
\<close>

fun Math_round :: "number \<Rightarrow> number" where
  "Math_round (Num x) = Num (of_int \<lfloor>x + 1 / 2\<rfloor>)"
| "Math_round x = x"

text \<open>A template literal: text and the numbers printed into it.\<close>

datatype Piece = Lit string | Val number

type_synonym Template = "Piece list"

subsection \<open>Permission matrix\<close>

datatype Permission =
    VIEW_VENTURE | VIEW_MEMBERS | VIEW_WALLET | VIEW_REQUESTS | VIEW_TASKS | VIEW_SUPPLIES
  | CREATE_TASK | COMPLETE_TASK | ASSIGN_TASK
  | CONTRIBUTE_FUNDS | PURCHASE_SUPPLIES
  | MANAGE_REQUESTS | REMOVE_MEMBER | CHANGE_MEMBER_ROLE | CHANGE_VENTURE_STATUS
  | UPLOAD_PHOTO | SET_COVER_PHOTO | REMOVE_PHOTO

text \<open>
  \<^verbatim>\<open>PRIVILEGE_PERMISSIONS\<close>: the key is \<^verbatim>\<open>privilege ?? 'none'\<close>, so the table is indexed
  by an optional privilege, \<open>None\<close> being the row \<^verbatim>\<open>'none'\<close>.
\<close>

fun PRIVILEGE_PERMISSIONS :: "UserPrivilege option \<Rightarrow> Permission list" where
  "PRIVILEGE_PERMISSIONS (Some co_owner) =
     [VIEW_VENTURE, VIEW_MEMBERS, VIEW_WALLET, VIEW_REQUESTS,
      VIEW_TASKS, VIEW_SUPPLIES,
      CREATE_TASK, COMPLETE_TASK, ASSIGN_TASK,
      CONTRIBUTE_FUNDS, PURCHASE_SUPPLIES,
      MANAGE_REQUESTS, REMOVE_MEMBER, CHANGE_MEMBER_ROLE, CHANGE_VENTURE_STATUS,
      UPLOAD_PHOTO, SET_COVER_PHOTO, REMOVE_PHOTO]"
| "PRIVILEGE_PERMISSIONS (Some admin) =
     [VIEW_VENTURE, VIEW_MEMBERS, VIEW_WALLET, VIEW_REQUESTS,
      VIEW_TASKS, VIEW_SUPPLIES,
      CREATE_TASK, COMPLETE_TASK, ASSIGN_TASK,
      CONTRIBUTE_FUNDS,
      MANAGE_REQUESTS,
      UPLOAD_PHOTO]"
| "PRIVILEGE_PERMISSIONS (Some buyer) =
     [VIEW_VENTURE, VIEW_MEMBERS, VIEW_WALLET,
      VIEW_TASKS, VIEW_SUPPLIES,
      CONTRIBUTE_FUNDS, PURCHASE_SUPPLIES,
      UPLOAD_PHOTO]"
| "PRIVILEGE_PERMISSIONS (Some viewer) =
     [VIEW_VENTURE, VIEW_MEMBERS, VIEW_WALLET,
      VIEW_TASKS, VIEW_SUPPLIES]"
| "PRIVILEGE_PERMISSIONS None =
     [VIEW_VENTURE]"

text \<open>
  \<^verbatim>\<open>can(privilege, permission, isOwner)\<close>. Every key of the typed input has a row, so
  the \<^verbatim>\<open>?.\<close> and \<^verbatim>\<open>?? false\<close> of the source never fire; \<^verbatim>\<open>includes\<close> is list membership.
\<close>

definition can :: "UserPrivilege option \<Rightarrow> Permission \<Rightarrow> bool \<Rightarrow> bool" where
  "can privilege permission isOwner =
     (if isOwner then True
      else List.member (PRIVILEGE_PERMISSIONS privilege) permission)"

subsection \<open>The environment\<close>

record Env =
  env_now :: string   \<comment> \<open>\<^verbatim>\<open>Date.now()\<close>, printed\<close>
  env_iso :: string   \<comment> \<open>\<^verbatim>\<open>new Date().toISOString()\<close>\<close>

subsection \<open>Wallet store\<close>

datatype WalletTransactionType = topup | deduct

record WalletTransaction =
  wt_id :: string
  wt_type :: WalletTransactionType
  wt_amount :: number
  wt_label :: string
  wt_timestamp :: string

record UserWallet =
  balance :: number
  transactions :: "WalletTransaction list"

type_synonym WalletMap = "string \<rightharpoonup> UserWallet"

record WalletState =
  wallets :: WalletMap
  w_loaded :: bool

datatype WalletAction =
    W_LOAD WalletMap
  | TOPUP string number string
  | DEDUCT string number "string option"

definition INITIAL_BALANCES :: "string \<rightharpoonup> number" where
  "INITIAL_BALANCES =
     [''abhijeet'' \<mapsto> Num 5000, ''priya'' \<mapsto> Num 3500, ''rahul'' \<mapsto> Num 2800]"

definition DEFAULT_INITIAL_BALANCE :: number where
  "DEFAULT_INITIAL_BALANCE = Num 1200"

definition getOrCreateWallet :: "WalletMap \<Rightarrow> string \<Rightarrow> UserWallet" where
  "getOrCreateWallet ws authUsername =
     (case ws authUsername of
        Some w \<Rightarrow> w
      | None \<Rightarrow>
          \<lparr> balance = (case INITIAL_BALANCES authUsername of
                          Some b \<Rightarrow> b | None \<Rightarrow> DEFAULT_INITIAL_BALANCE),
            transactions = [] \<rparr>)"

fun wallet_reducer :: "Env \<Rightarrow> WalletState \<Rightarrow> WalletAction \<Rightarrow> WalletState" where
  "wallet_reducer env state (W_LOAD ws) = \<lparr> wallets = ws, w_loaded = True \<rparr>"
| "wallet_reducer env state (TOPUP authUsername amount label) =
     (let wallet = getOrCreateWallet (wallets state) authUsername;
          tx = \<lparr> wt_id = ''tx-'' @ env_now env,
                 wt_type = topup,
                 wt_amount = amount,
                 wt_label = label,
                 wt_timestamp = env_iso env \<rparr>
      in state \<lparr> wallets := (wallets state)
           (authUsername \<mapsto>
              \<lparr> balance = js_add (balance wallet) amount,
                transactions = tx # transactions wallet \<rparr>) \<rparr>)"
| "wallet_reducer env state (DEDUCT authUsername amount label) =
     (let wallet = getOrCreateWallet (wallets state) authUsername;
          tx = \<lparr> wt_id = ''tx-'' @ env_now env,
                 wt_type = deduct,
                 wt_amount = amount,
                 wt_label = (case label of Some l \<Rightarrow> l | None \<Rightarrow> ''Purchase''),
                 wt_timestamp = env_iso env \<rparr>
      in state \<lparr> wallets := (wallets state)
           (authUsername \<mapsto>
              \<lparr> balance = Math_max (Num 0) (js_sub (balance wallet) amount),
                transactions = tx # transactions wallet \<rparr>) \<rparr>)"

definition getBalance :: "WalletState \<Rightarrow> string \<Rightarrow> number" where
  "getBalance state authUsername = balance (getOrCreateWallet (wallets state) authUsername)"


subsection \<open>Ventures store: data\<close>

record Venture =
  v_id :: string
  v_name :: string
  v_status :: VentureStatus
  v_isFree :: bool
  v_budget :: number
  v_currentFunding :: number
  v_eac :: number
  v_ownerName :: string

text \<open>\<^verbatim>\<open>Partial<Venture>\<close>: every field may be absent.\<close>

record VenturePatch =
  patch_id :: "string option"
  patch_name :: "string option"
  patch_status :: "VentureStatus option"
  patch_isFree :: "bool option"
  patch_budget :: "number option"
  patch_currentFunding :: "number option"
  patch_eac :: "number option"
  patch_ownerName :: "string option"

record JoinRequest =
  jr_id :: string
  jr_ventureId :: string
  jr_username :: string
  jr_authUsername :: "string option"
  jr_role :: UserRole
  jr_privilege :: "UserPrivilege option"
  jr_pitch :: number
  jr_message :: string
  jr_status :: "RequestStatus option"

record VentureMember =
  m_id :: string
  m_username :: string
  m_authUsername :: "string option"
  m_role :: UserRole
  m_privilege :: "UserPrivilege option"
  m_isOwner :: "bool option"

record Transaction =
  tx_id :: string
  tx_ventureId :: string
  tx_type :: TransactionType
  tx_username :: string
  tx_amount :: number
  tx_description :: Template
  tx_timestamp :: string

record Pledge =
  pl_authUsername :: string
  pl_displayName :: string
  pl_amount :: number
  pl_ventureId :: string

type_synonym JoinRequestsMap = "string \<rightharpoonup> JoinRequest list"
type_synonym MembersMap = "string \<rightharpoonup> VentureMember list"
type_synonym VentureTxsMap = "string \<rightharpoonup> Transaction list"
type_synonym PledgesMap = "string \<rightharpoonup> Pledge list"

record State =
  ventures :: "Venture list"
  joinRequests :: JoinRequestsMap
  members :: MembersMap
  ventureTxs :: VentureTxsMap
  pledges :: PledgesMap
  loaded :: bool

text \<open>
  The decision of \<^verbatim>\<open>UPDATE_JOIN_REQUEST_STATUS\<close> has the type
  \<^verbatim>\<open>'approved' | 'denied'\<close>: a request is never set back to pending.
\<close>

datatype Decision = Approve | Deny

fun decided :: "Decision \<Rightarrow> RequestStatus" where
  "decided Approve = approved"
| "decided Deny = denied"

datatype Action =
    LOAD "Venture list" JoinRequestsMap MembersMap VentureTxsMap PledgesMap
  | ADD_VENTURE Venture "VentureMember option"
  | UPDATE_VENTURE string VenturePatch
  | ADD_JOIN_REQUEST string JoinRequest
  | UPDATE_JOIN_REQUEST_STATUS string string Decision
  | REJECT_ALL_PENDING_REQUESTS string
  | ADD_MEMBER string VentureMember
  | REMOVE_MEMBER string string
  | ADD_VENTURE_TX string Transaction
  | RECORD_PLEDGE Pledge
  | REMOVE_PLEDGE string string

subsection \<open>Ventures store: reducer\<close>

text \<open>\<^verbatim>\<open>m[k] ?? []\<close>\<close>

definition orEmpty :: "'a list option \<Rightarrow> 'a list" where
  "orEmpty x = (case x of Some xs \<Rightarrow> xs | None \<Rightarrow> [])"

text \<open>\<^verbatim>\<open>{ ...v, ...patch }\<close>: a field of the patch that is present replaces the venture's.\<close>

definition orElse :: "'a option \<Rightarrow> 'a \<Rightarrow> 'a" where
  "orElse x d = (case x of Some y \<Rightarrow> y | None \<Rightarrow> d)"

definition applyPatch :: "Venture \<Rightarrow> VenturePatch \<Rightarrow> Venture" where
  "applyPatch v p =
     \<lparr> v_id = orElse (patch_id p) (v_id v),
       v_name = orElse (patch_name p) (v_name v),
       v_status = orElse (patch_status p) (v_status v),
       v_isFree = orElse (patch_isFree p) (v_isFree v),
       v_budget = orElse (patch_budget p) (v_budget v),
       v_currentFunding = orElse (patch_currentFunding p) (v_currentFunding v),
       v_eac = orElse (patch_eac p) (v_eac v),
       v_ownerName = orElse (patch_ownerName p) (v_ownerName v) \<rparr>"

text \<open>\<^verbatim>\<open>!r.status || r.status === 'pending'\<close>\<close>

definition isPending :: "JoinRequest \<Rightarrow> bool" where
  "isPending r = (jr_status r = None \<or> jr_status r = Some pending)"

fun reducer :: "State \<Rightarrow> Action \<Rightarrow> State" where
  "reducer state (LOAD vs jrs ms txs ps) =
     \<lparr> ventures = vs, joinRequests = jrs, members = ms, ventureTxs = txs,
       pledges = ps, loaded = True \<rparr>"
| "reducer state (ADD_VENTURE venture ownerMember) =
     (let newMembers =
            (case ownerMember of
               Some om \<Rightarrow> (members state)(v_id venture \<mapsto> [om])
             | None \<Rightarrow> members state)
      in state \<lparr> ventures := venture # ventures state, members := newMembers \<rparr>)"
| "reducer state (UPDATE_VENTURE ident patch) =
     state \<lparr> ventures :=
       map (\<lambda>v. if v_id v = ident then applyPatch v patch else v) (ventures state) \<rparr>"
| "reducer state (ADD_JOIN_REQUEST ventureId request) =
     (let existing = orEmpty (joinRequests state ventureId)
      in if list_ex (\<lambda>r. jr_id r = jr_id request) existing then state
         else state \<lparr> joinRequests :=
                (joinRequests state)(ventureId \<mapsto> existing @ [request]) \<rparr>)"
| "reducer state (UPDATE_JOIN_REQUEST_STATUS ventureId requestId status) =
     (let existing = orEmpty (joinRequests state ventureId)
      in state \<lparr> joinRequests :=
           (joinRequests state)(ventureId \<mapsto>
              map (\<lambda>r. if jr_id r = requestId
                        then r \<lparr> jr_status := Some (decided status) \<rparr> else r)
                  existing) \<rparr>)"
| "reducer state (REJECT_ALL_PENDING_REQUESTS ventureId) =
     (let existing = orEmpty (joinRequests state ventureId)
      in state \<lparr> joinRequests :=
           (joinRequests state)(ventureId \<mapsto>
              map (\<lambda>r. if isPending r then r \<lparr> jr_status := Some denied \<rparr> else r)
                  existing) \<rparr>)"
| "reducer state (ADD_MEMBER ventureId member) =
     (let existing = orEmpty (members state ventureId)
      in if list_ex (\<lambda>m. m_id m = m_id member) existing then state
         else state \<lparr> members := (members state)(ventureId \<mapsto> existing @ [member]) \<rparr>)"
| "reducer state (REMOVE_MEMBER ventureId memberId) =
     (let existing = orEmpty (members state ventureId)
      in state \<lparr> members :=
           (members state)(ventureId \<mapsto> filter (\<lambda>m. m_id m \<noteq> memberId) existing) \<rparr>)"
| "reducer state (ADD_VENTURE_TX ventureId tx) =
     (let existing = orEmpty (ventureTxs state ventureId)
      in state \<lparr> ventureTxs := (ventureTxs state)(ventureId \<mapsto> tx # existing) \<rparr>)"
| "reducer state (RECORD_PLEDGE pledge) =
     (let ventureId = pl_ventureId pledge;
          authUsername = pl_authUsername pledge;
          existing = filter (\<lambda>p. pl_authUsername p \<noteq> authUsername)
                            (orEmpty (pledges state ventureId))
      in state \<lparr> pledges := (pledges state)(ventureId \<mapsto> existing @ [pledge]) \<rparr>)"
| "reducer state (REMOVE_PLEDGE ventureId authUsername) =
     (let existing = orEmpty (pledges state ventureId)
      in state \<lparr> pledges :=
           (pledges state)(ventureId \<mapsto>
              filter (\<lambda>p. pl_authUsername p \<noteq> authUsername) existing) \<rparr>)"

subsection \<open>Ventures store: the context's operations\<close>

definition updateVentureStatus :: "string \<Rightarrow> VentureStatus \<Rightarrow> State \<Rightarrow> State" where
  "updateVentureStatus ident status state =
     reducer state (UPDATE_VENTURE ident
       \<lparr> patch_id = None, patch_name = None, patch_status = Some status,
         patch_isFree = None, patch_budget = None, patch_currentFunding = None,
         patch_eac = None, patch_ownerName = None \<rparr>)"

definition addJoinRequest :: "string \<Rightarrow> JoinRequest \<Rightarrow> State \<Rightarrow> State" where
  "addJoinRequest ventureId request state = reducer state (ADD_JOIN_REQUEST ventureId request)"

definition getJoinRequestsForVenture :: "State \<Rightarrow> string \<Rightarrow> JoinRequest list" where
  "getJoinRequestsForVenture state ventureId = orEmpty (joinRequests state ventureId)"

text \<open>
  \<^verbatim>\<open>hasRequestedJoin(ventureId, authUsername?)\<close>. The test \<^verbatim>\<open>if (authUsername)\<close> is
  JavaScript truthiness: it fails for a missing argument and for the empty string.
\<close>

definition hasRequestedJoin :: "State \<Rightarrow> string \<Rightarrow> string option \<Rightarrow> bool" where
  "hasRequestedJoin state ventureId authUsername =
     (let requests = orEmpty (joinRequests state ventureId)
      in case authUsername of
           Some (c # cs) \<Rightarrow>
             list_ex (\<lambda>r. jr_authUsername r = Some (c # cs) \<and> isPending r) requests
         | _ \<Rightarrow> length requests > 0)"

definition updateJoinRequestStatus :: "string \<Rightarrow> string \<Rightarrow> Decision \<Rightarrow> State \<Rightarrow> State" where
  "updateJoinRequestStatus ventureId requestId status state =
     reducer state (UPDATE_JOIN_REQUEST_STATUS ventureId requestId status)"

definition rejectAllPendingRequests :: "string \<Rightarrow> State \<Rightarrow> State" where
  "rejectAllPendingRequests ventureId state =
     reducer state (REJECT_ALL_PENDING_REQUESTS ventureId)"

definition getMembersForVenture :: "State \<Rightarrow> string \<Rightarrow> VentureMember list" where
  "getMembersForVenture state ventureId = orEmpty (members state ventureId)"

definition getVentureTxs :: "State \<Rightarrow> string \<Rightarrow> Transaction list" where
  "getVentureTxs state ventureId = orEmpty (ventureTxs state ventureId)"

definition getPledgesForVenture :: "State \<Rightarrow> string \<Rightarrow> Pledge list" where
  "getPledgesForVenture state ventureId = orEmpty (pledges state ventureId)"

definition addVentureTx :: "string \<Rightarrow> Transaction \<Rightarrow> State \<Rightarrow> State" where
  "addVentureTx ventureId tx state = reducer state (ADD_VENTURE_TX ventureId tx)"

definition recordPledge :: "Pledge \<Rightarrow> State \<Rightarrow> State" where
  "recordPledge pledge state = reducer state (RECORD_PLEDGE pledge)"

definition removePledge :: "string \<Rightarrow> string \<Rightarrow> State \<Rightarrow> State" where
  "removePledge ventureId authUsername state =
     reducer state (REMOVE_PLEDGE ventureId authUsername)"

subsection \<open>Wallet store: the context's operations\<close>

definition topupWallet ::
  "Env \<Rightarrow> string \<Rightarrow> number \<Rightarrow> string \<Rightarrow> WalletState \<Rightarrow> WalletState" where
  "topupWallet env authUsername amount label state =
     wallet_reducer env state (TOPUP authUsername amount label)"

definition deductWallet ::
  "Env \<Rightarrow> string \<Rightarrow> number \<Rightarrow> string option \<Rightarrow> WalletState \<Rightarrow> WalletState" where
  "deductWallet env authUsername amount label state =
     wallet_reducer env state (DEDUCT authUsername amount label)"

subsection \<open>Seed ledger (\<^verbatim>\<open>MOCK_TRANSACTIONS\<close>)\<close>

definition MOCK_TRANSACTIONS :: "Transaction list" where
  "MOCK_TRANSACTIONS =
   [ \<lparr> tx_id = ''tx1'', tx_ventureId = ''v1'', tx_type = contribution,
       tx_username = ''Abhijeet P.'', tx_amount = Num 500,
       tx_description = [Lit ''Owner initial contribution''],
       tx_timestamp = ''2026-02-15T10:00:00Z'' \<rparr>,
     \<lparr> tx_id = ''tx2'', tx_ventureId = ''v1'', tx_type = contribution,
       tx_username = ''Priya M.'', tx_amount = Num 300,
       tx_description = [Lit ''Contributing volunteer joined''],
       tx_timestamp = ''2026-02-16T14:30:00Z'' \<rparr>,
     \<lparr> tx_id = ''tx3'', tx_ventureId = ''v1'', tx_type = contribution,
       tx_username = ''TechCorp Sponsor'', tx_amount = Num 2000,
       tx_description = [Lit ''Sponsor contribution''],
       tx_timestamp = ''2026-02-17T09:00:00Z'' \<rparr>,
     \<lparr> tx_id = ''tx4'', tx_ventureId = ''v1'', tx_type = purchase,
       tx_username = ''Abhijeet P.'', tx_amount = Num (- 450),
       tx_description = [Lit ''Ordered 20 pairs of gloves + masks''],
       tx_timestamp = ''2026-02-18T11:00:00Z'' \<rparr>,
     \<lparr> tx_id = ''tx5'', tx_ventureId = ''v1'', tx_type = contribution,
       tx_username = ''Rohan S.'', tx_amount = Num 400,
       tx_description = [Lit ''Contributing volunteer joined''],
       tx_timestamp = ''2026-02-19T16:00:00Z'' \<rparr>,
     \<lparr> tx_id = ''tx6'', tx_ventureId = ''v8'', tx_type = contribution,
       tx_username = ''Farhan A.'', tx_amount = Num 700,
       tx_description = [Lit ''Owner initial contribution''],
       tx_timestamp = ''2026-02-01T08:00:00Z'' \<rparr>,
     \<lparr> tx_id = ''tx7'', tx_ventureId = ''v8'', tx_type = contribution,
       tx_username = ''Priya M.'', tx_amount = Num 350,
       tx_description = [Lit ''Contributing volunteer''],
       tx_timestamp = ''2026-02-03T10:00:00Z'' \<rparr> ]"

subsection \<open>Venture detail screen: financial lifecycle helpers\<close>

record AppUser =
  u_username :: string
  u_displayName :: string

text \<open>
  What the screen's hooks give it: the ventures store, the wallet store and the
  logged-in user.
\<close>

record App =
  store :: State
  wallet :: WalletState
  authUser :: "AppUser option"

definition onStore :: "(State \<Rightarrow> State) \<Rightarrow> App \<Rightarrow> App" where
  "onStore f app = app \<lparr> store := f (store app) \<rparr>"

definition onWallet :: "(WalletState \<Rightarrow> WalletState) \<Rightarrow> App \<Rightarrow> App" where
  "onWallet f app = app \<lparr> wallet := f (wallet app) \<rparr>"

text \<open>\<^verbatim>\<open>xs.reduce((sum, t) => sum + t.amount, 0)\<close>\<close>

definition sumAmounts :: "Transaction list \<Rightarrow> number" where
  "sumAmounts txs = foldl (\<lambda>sum t. js_add sum (tx_amount t)) (Num 0) txs"

definition handlePledgeDeduct ::
  "Env \<Rightarrow> Venture \<Rightarrow> string \<Rightarrow> string \<Rightarrow> number \<Rightarrow> App \<Rightarrow> App" where
  "handlePledgeDeduct env venture authUsername displayName amount app =
     (let app1 = onWallet (deductWallet env authUsername amount
                             (Some (''Pledge to '' @ v_name venture))) app;
          app2 = onStore (recordPledge
                   \<lparr> pl_authUsername = authUsername, pl_displayName = displayName,
                     pl_amount = amount, pl_ventureId = v_id venture \<rparr>) app1
      in onStore (addVentureTx (v_id venture)
           \<lparr> tx_id = ''tx-pledge-'' @ env_now env,
             tx_ventureId = v_id venture,
             tx_type = contribution,
             tx_username = displayName,
             tx_amount = amount,
             tx_description = [Lit ''Pledge on joining''],
             tx_timestamp = env_iso env \<rparr>) app2)"

definition handleMemberRefund :: "Env \<Rightarrow> Venture \<Rightarrow> string \<Rightarrow> string \<Rightarrow> App \<Rightarrow> App" where
  "handleMemberRefund env venture authUsername displayName app =
     (let pledges = getPledgesForVenture (store app) (v_id venture)
      in case find (\<lambda>p. pl_authUsername p = authUsername) pledges of
           None \<Rightarrow> app
         | Some pledge \<Rightarrow>
             if js_le (pl_amount pledge) (Num 0) then app
             else
               (let app1 = onWallet (topupWallet env authUsername (pl_amount pledge)
                                       (''Refund from '' @ v_name venture)) app;
                    app2 = onStore (removePledge (v_id venture) authUsername) app1
                in onStore (addVentureTx (v_id venture)
                     \<lparr> tx_id = ''tx-refund-'' @ env_now env,
                       tx_ventureId = v_id venture,
                       tx_type = refund,
                       tx_username = displayName,
                       tx_amount = pl_amount pledge,
                       tx_description = [Lit ''Refund on leaving/removal''],
                       tx_timestamp = env_iso env \<rparr>) app2))"

text \<open>
  The remaining balance as \<^verbatim>\<open>handleVentureCompletion\<close> computes it: from
  \<^verbatim>\<open>MOCK_TRANSACTIONS.filter(t => t.ventureId === ventureId)\<close>.
\<close>

definition completionRemaining :: "string \<Rightarrow> number" where
  "completionRemaining ventureId =
     (let storedTxs = filter (\<lambda>t. tx_ventureId t = ventureId) MOCK_TRANSACTIONS;
          totalContributed = sumAmounts (filter (\<lambda>t. tx_type t = contribution) storedTxs);
          totalSpent = sumAmounts (filter (\<lambda>t. tx_type t = purchase) storedTxs)
      in Math_max (Num 0) (js_sub totalContributed totalSpent))"

text \<open>The body of \<^verbatim>\<open>pledges.forEach(pledge => ...)\<close> inside the payout branch.\<close>

definition payoutPledge ::
  "Env \<Rightarrow> Venture \<Rightarrow> string \<Rightarrow> number \<Rightarrow> number \<Rightarrow> Pledge \<Rightarrow> App \<Rightarrow> App" where
  "payoutPledge env venture ventureId remaining totalPledged pledge app =
     (let share = js_div (pl_amount pledge) totalPledged;
          refundAmount = Math_round (js_mul remaining share)
      in if js_gt refundAmount (Num 0) then
           (let app1 =
                  (if map_option u_username (authUser app) = Some (pl_authUsername pledge)
                   then onWallet (topupWallet env (pl_authUsername pledge) refundAmount
                          (''Payout from completed venture '' @ v_name venture)) app
                   else app)
            in onStore (addVentureTx ventureId
                 \<lparr> tx_id = ''tx-payout-'' @ env_now env @ ''-'' @ pl_authUsername pledge,
                   tx_ventureId = ventureId,
                   tx_type = cashout,
                   tx_username = pl_displayName pledge,
                   tx_amount = refundAmount,
                   tx_description =
                     [Lit ''Proportional payout ('',
                      Val (Math_round (js_mul share (Num 100))),
                      Lit ''% share)''],
                   tx_timestamp = env_iso env \<rparr>) app1)
         else app)"

definition handleVentureCompletion :: "Env \<Rightarrow> Venture \<Rightarrow> string \<Rightarrow> App \<Rightarrow> App" where
  "handleVentureCompletion env venture ventureId app =
     (let pledges = getPledgesForVenture (store app) ventureId;
          totalPledged = foldl (\<lambda>sum p. js_add sum (pl_amount p)) (Num 0) pledges;
          remaining = completionRemaining ventureId;
          app1 = (if js_gt remaining (Num 0) \<and> js_gt totalPledged (Num 0)
                  then fold (payoutPledge env venture ventureId remaining totalPledged)
                         pledges app
                  else app)
      in fold (\<lambda>p. onStore (removePledge ventureId (pl_authUsername p))) pledges app1)"

text \<open>
  The \<^verbatim>\<open>onPress\<close> of the "Mark Complete" button:
  \<^verbatim>\<open>updateVentureStatus(venture.id, 'finished'); handleVentureCompletion(venture.id)\<close>.
  The status update touches neither pledges nor wallets, so the handler reads the same
  pledges before and after it.
\<close>

definition onMarkComplete :: "Env \<Rightarrow> Venture \<Rightarrow> App \<Rightarrow> App" where
  "onMarkComplete env venture app =
     handleVentureCompletion env venture (v_id venture)
       (onStore (updateVentureStatus (v_id venture) finished) app)"

text \<open>
  The payout summary of the confirmation dialog computes the remaining balance from the
  store's ledger, \<^verbatim>\<open>getVentureTxs(venture.id)\<close>.
\<close>

definition summaryRemaining :: "State \<Rightarrow> string \<Rightarrow> number" where
  "summaryRemaining state ventureId =
     (let allTxs = getVentureTxs state ventureId;
          totalContributed = sumAmounts (filter (\<lambda>t. tx_type t = contribution) allTxs);
          totalSpent = sumAmounts (filter (\<lambda>t. tx_type t = purchase) allTxs)
      in Math_max (Num 0) (js_sub totalContributed totalSpent))"

subsection \<open>Mission tab: the status controls\<close>

text \<open>
  The two conditional buttons of \<^verbatim>\<open>MissionTab\<close>: "Activate Venture" is rendered for
  \<^verbatim>\<open>canChangeStatus && venture.status === 'proposed'\<close> and asks for \<^verbatim>\<open>'ongoing'\<close>;
  "Mark as Complete" is rendered for \<^verbatim>\<open>canChangeStatus && venture.status === 'ongoing'\<close>
  and asks for \<^verbatim>\<open>'finished'\<close>. The list holds the statuses the rendered buttons ask for.
\<close>

definition statusControls :: "bool \<Rightarrow> Venture \<Rightarrow> VentureStatus list" where
  "statusControls canChangeStatus venture =
     (if canChangeStatus \<and> v_status venture = proposed then [ongoing] else [])
     @ (if canChangeStatus \<and> v_status venture = ongoing then [finished] else [])"

text \<open>
  What the screen passes to the mission tab:
  \<^verbatim>\<open>canDo = p => can(myPrivilege, p, isOwnerFlag || myPrivilege === 'co-owner')\<close> and
  \<^verbatim>\<open>canChangeStatus={canDo('CHANGE_VENTURE_STATUS')}\<close>.
\<close>

definition canDo :: "UserPrivilege option \<Rightarrow> bool \<Rightarrow> Permission \<Rightarrow> bool" where
  "canDo myPrivilege isOwnerFlag p =
     can myPrivilege p (isOwnerFlag \<or> myPrivilege = Some co_owner)"

definition missionStatusControls ::
  "UserPrivilege option \<Rightarrow> bool \<Rightarrow> Venture \<Rightarrow> VentureStatus list" where
  "missionStatusControls myPrivilege isOwnerFlag venture =
     statusControls (canDo myPrivilege isOwnerFlag CHANGE_VENTURE_STATUS) venture"

subsection \<open>A concrete session\<close>

text \<open>
  The seeded venture \<^verbatim>\<open>v8\<close> (ongoing, owned by priya), as the store holds it after
  start-up: its ledger is the \<^verbatim>\<open>v8\<close> part of \<^verbatim>\<open>MOCK_TRANSACTIONS\<close>
  (\<^verbatim>\<open>buildInitialVentureTxs\<close>), nobody has pledged, no wallet has been touched. priya is
  logged in. abhijeet has asked to join with a pitch of 350 and was approved; meera's
  request is still pending.
\<close>

definition env1 :: Env where
  "env1 = \<lparr> env_now = ''1772355600000'', env_iso = ''2026-03-01T09:00:00.000Z'' \<rparr>"

definition env2 :: Env where
  "env2 = \<lparr> env_now = ''1772442000000'', env_iso = ''2026-03-02T09:00:00.000Z'' \<rparr>"

definition venture_v8 :: Venture where
  "venture_v8 =
     \<lparr> v_id = ''v8'', v_name = ''Sabarmati Riverfront Drive'', v_status = ongoing,
       v_isFree = False, v_budget = Num 9000, v_currentFunding = Num 6300,
       v_eac = Num 350,
       v_ownerName = ''Farhan A.'' \<rparr>"

definition request_abhijeet :: JoinRequest where
  "request_abhijeet =
     \<lparr> jr_id = ''jr-1772350000000'', jr_ventureId = ''v8'', jr_username = ''Abhijeet P.'',
       jr_authUsername = Some ''abhijeet'', jr_role = contributing_volunteer,
       jr_privilege = Some buyer, jr_pitch = Num 350, jr_message = '''',
       jr_status = Some approved \<rparr>"

definition request_meera :: JoinRequest where
  "request_meera =
     \<lparr> jr_id = ''jr-1772351000000'', jr_ventureId = ''v8'', jr_username = ''Meera K.'',
       jr_authUsername = Some ''meera'', jr_role = volunteer,
       jr_privilege = None, jr_pitch = Num 0, jr_message = ''Happy to help'',
       jr_status = Some pending \<rparr>"

definition request_meera_again :: JoinRequest where
  "request_meera_again = request_meera \<lparr> jr_id := ''jr-1772352000000'' \<rparr>"

definition owner_v8 :: VentureMember where
  "owner_v8 =
     \<lparr> m_id = ''owner-v8'', m_username = ''Priya M.'', m_authUsername = Some ''priya'',
       m_role = volunteer, m_privilege = Some co_owner, m_isOwner = Some True \<rparr>"

definition app_seed :: App where
  "app_seed =
     \<lparr> store =
         \<lparr> ventures = [venture_v8],
           joinRequests = [''v8'' \<mapsto> [request_abhijeet, request_meera]],
           members = [''v8'' \<mapsto> [owner_v8]],
           ventureTxs = [''v8'' \<mapsto> filter (\<lambda>t. tx_ventureId t = ''v8'') MOCK_TRANSACTIONS],
           pledges = Map.empty,
           loaded = True \<rparr>,
       wallet = \<lparr> wallets = Map.empty, w_loaded = True \<rparr>,
       authUser = Some \<lparr> u_username = ''priya'', u_displayName = ''Priya M.'' \<rparr> \<rparr>"

text \<open>priya approves abhijeet's request: his pledge of 350 is deducted.\<close>

definition app_pledged :: App where
  "app_pledged = handlePledgeDeduct env1 venture_v8 ''abhijeet'' ''Abhijeet P.'' (Num 350) app_seed"

text \<open>priya then presses "Mark Complete".\<close>

definition app_completed :: App where
  "app_completed = onMarkComplete env2 venture_v8 app_pledged"


text \<open>
  Two wallets for the pledge-and-refund round trip. In the first, abhijeet's balance is
  4999.8 (what a pledge of 0.2 leaves of his 5000), as binary64 holds it, and his pitch
  is \<^verbatim>\<open>parseFloat("256.02")\<close>. In the second his balance is the integer
  9007199254740994, above \<^verbatim>\<open>Number.MAX_SAFE_INTEGER\<close>, and his pitch is 1.
\<close>

definition balance_fraction :: number where
  "balance_fraction = Num (5497338236554445 / 1099511627776)"

definition pitch_fraction :: number where
  "pitch_fraction = Num (562993933886423 / 2199023255552)"

definition app_fraction :: App where
  "app_fraction =
     app_seed \<lparr> wallet :=
       \<lparr> wallets = [''abhijeet'' \<mapsto> \<lparr> balance = balance_fraction, transactions = [] \<rparr>],
         w_loaded = True \<rparr> \<rparr>"

definition app_large :: App where
  "app_large =
     app_seed \<lparr> wallet :=
       \<lparr> wallets = [''abhijeet'' \<mapsto> \<lparr> balance = Num 9007199254740994, transactions = [] \<rparr>],
         w_loaded = True \<rparr> \<rparr>"

section \<open>Properties\<close>

subsection \<open>Rounding to binary64\<close>

text \<open>
  An integer below \<^verbatim>\<open>2^53\<close> in magnitude is a binary64 value: rounding leaves it as it
  is. This is what evaluates the arithmetic of the concrete session.
\<close>

lemma quantum_down_pow:
  "q = 1 / 2 ^ j \<Longrightarrow> \<exists>n. quantum_down a q j = 1 / 2 ^ n"
proof (induction a q j rule: quantum_down.induct)
  case (1 a q j)
  show ?case
  proof (cases "j < 1074 \<and> a < 2 ^ 52 * q")
    case True
    have "q / 2 = 1 / 2 ^ Suc j" using "1.prems" by simp
    from "1.IH"[OF True this] show ?thesis
      using True by (subst quantum_down.simps) simp
  next
    case False
    then have "quantum_down a q j = q" by (subst quantum_down.simps) auto
    with "1.prems" show ?thesis by blast
  qed
qed

lemma round_half_even_of_int [simp]: "round_half_even (of_int n) = n"
  by (simp add: round_half_even_def)

lemma fl_of_int:
  assumes "\<bar>n\<bar> < 2 ^ 53"
  shows "fl (of_int n) = Num (of_int n)"
proof (cases "n = 0")
  case True
  then show ?thesis by (simp add: fl_def)
next
  case False
  let ?a = "\<bar>of_int n :: rat\<bar>"
  have lt: "?a < 2 ^ 53"
  proof -
    have "(of_int \<bar>n\<bar> :: rat) < of_int (2 ^ 53)" using assms by (simp only: of_int_less_iff)
    then show ?thesis by simp
  qed
  then have "quantum ?a = quantum_down ?a 1 0" by (simp add: quantum_def)
  moreover obtain k where k: "quantum_down ?a 1 0 = 1 / 2 ^ k"
    using quantum_down_pow[of 1 0 ?a] by auto
  ultimately have q: "quantum ?a = 1 / 2 ^ k" by simp
  have "?a / (1 / 2 ^ k) = of_int (\<bar>n\<bar> * 2 ^ k)" by simp
  then have m: "round_half_even (?a / (1 / 2 ^ k)) = \<bar>n\<bar> * 2 ^ k"
    by (simp only: round_half_even_of_int)
  have r: "of_int (round_half_even (?a / quantum ?a)) * quantum ?a = ?a"
    unfolding q m by simp
  have small: "\<not> (2 ^ 1024 \<le> ?a)"
  proof -
    have "(2::rat) ^ 53 \<le> 2 ^ 1024" by (rule power_increasing) simp_all
    with lt show ?thesis by linarith
  qed
  have nz: "(of_int n :: rat) \<noteq> 0" using False by simp
  show ?thesis
    unfolding fl_def Let_def r using nz small by (auto simp add: abs_if)
qed

lemma fl_zero [simp]: "fl 0 = Num 0"
  by (simp add: fl_def)

lemma fl_one [simp]: "fl 1 = Num 1"
  using fl_of_int [of 1] by simp

lemma fl_numeral [simp]:
  "(numeral k :: int) < 2 ^ 53 \<Longrightarrow> fl (numeral k) = Num (numeral k)"
  using fl_of_int [of "numeral k"] by simp

lemma fl_neg_numeral [simp]:
  "(numeral k :: int) < 2 ^ 53 \<Longrightarrow> fl (- numeral k) = Num (- numeral k)"
  using fl_of_int [of "- numeral k"] by simp

lemma floor_rat_numeral_div [simp]:
  "\<lfloor>(numeral a :: rat) / numeral b\<rfloor> = numeral a div numeral b"
  using floor_divide_of_int_eq [of "numeral a" "numeral b", where ?'a = rat] by simp

lemma Math_round_of_int: "Math_round (Num (of_int n)) = Num (of_int n)"
proof -
  have "\<lfloor>(of_int n :: rat) + 1 / 2\<rfloor> = n" by (rule floor_unique) simp_all
  then show ?thesis by simp
qed

lemma Math_round_numeral [simp]: "Math_round (Num (numeral k)) = Num (numeral k)"
  using Math_round_of_int [of "numeral k"] by simp

lemma Math_round_zero [simp]: "Math_round (Num 0) = Num 0"
  using Math_round_of_int [of 0] by simp

lemma Math_round_one [simp]: "Math_round (Num 1) = Num 1"
  using Math_round_of_int [of 1] by simp

text \<open>A certificate for the spacing below \<open>1\<close>.\<close>

lemma quantum_down_steps:
  assumes "j \<le> n" and "n \<le> 1074"
    and cont: "\<forall>i. j \<le> i \<and> i < n \<longrightarrow> a < 2 ^ 52 / 2 ^ i"
    and stop: "n = 1074 \<or> 2 ^ 52 / 2 ^ n \<le> a"
  shows "quantum_down a (1 / 2 ^ j) j = 1 / 2 ^ n"
  using assms
proof (induction "n - j" arbitrary: j)
  case 0
  then have jn: "j = n" by simp
  have "\<not> (n < 1074 \<and> a < 2 ^ 52 * (1 / 2 ^ n))"
    using "0.prems"(4) by auto
  then show ?case unfolding jn by (subst quantum_down.simps) auto
next
  case (Suc d)
  then have lt: "j < n" by simp
  then have j1074: "j < 1074" using Suc.prems(2) by simp
  have "a < 2 ^ 52 / 2 ^ j" using Suc.prems(3) lt by simp
  then have go: "j < 1074 \<and> a < 2 ^ 52 * (1 / 2 ^ j)" using j1074 by simp
  have half: "(1 / 2 ^ j) / 2 = (1::rat) / 2 ^ Suc j" by simp
  have "quantum_down a (1 / 2 ^ Suc j) (Suc j) = 1 / 2 ^ n"
  proof (rule Suc.hyps(1))
    show "d = n - Suc j" using Suc.hyps(2) by simp
    show "Suc j \<le> n" using lt by simp
    show "n \<le> 1074" by (rule Suc.prems(2))
    show "\<forall>i. Suc j \<le> i \<and> i < n \<longrightarrow> a < 2 ^ 52 / 2 ^ i" using Suc.prems(3) by simp
    show "n = 1074 \<or> 2 ^ 52 / 2 ^ n \<le> a" by (rule Suc.prems(4))
  qed
  then have "quantum_down a ((1 / 2 ^ j) / 2) (Suc j) = 1 / 2 ^ n" by (simp only: half)
  moreover have "quantum_down a (1 / 2 ^ j) j = quantum_down a ((1 / 2 ^ j) / 2) (Suc j)"
    by (subst quantum_down.simps) (simp only: go if_True simp_thms)
  ultimately show ?case by simp
qed

lemma fl_below_one_spacing:
  assumes pos: "0 < x" and n: "0 < n" "n \<le> 1074"
    and lo: "2 ^ 52 / 2 ^ n \<le> x" and hi: "x < 2 ^ 53 / 2 ^ n"
    and m: "round_half_even (x * 2 ^ n) = m"
  shows "fl x = Num (of_int m / 2 ^ n)"
proof -
  have p1: "(1::rat) \<le> 2 ^ n" by simp
  have "x < 2 ^ 53 / 2 ^ n" by (rule hi)
  also have "\<dots> \<le> 2 ^ 53" using p1 by (simp add: field_simps)
  finally have x53: "x < 2 ^ 53" .
  have cont: "\<forall>i. 0 \<le> i \<and> i < n \<longrightarrow> x < 2 ^ 52 / 2 ^ i"
  proof (intro allI impI)
    fix i assume "0 \<le> i \<and> i < n"
    then have "Suc i \<le> n" by simp
    then have "(2::rat) ^ Suc i \<le> 2 ^ n" by (intro power_increasing) simp_all
    then have "(2::rat) ^ 53 / 2 ^ n \<le> 2 ^ 53 / 2 ^ Suc i"
      by (intro divide_left_mono) simp_all
    also have "\<dots> = 2 ^ 52 / 2 ^ i" by simp
    finally show "x < 2 ^ 52 / 2 ^ i" using hi by simp
  qed
  have "quantum_down x (1 / 2 ^ 0) 0 = 1 / 2 ^ n"
    by (rule quantum_down_steps) (use n cont lo in simp_all)
  then have q: "quantum x = 1 / 2 ^ n" using x53 by (simp add: quantum_def)
  have r: "of_int (round_half_even (\<bar>x\<bar> / quantum \<bar>x\<bar>)) * quantum \<bar>x\<bar> = of_int m / 2 ^ n"
    using pos q m by simp
  have "round_half_even (x * 2 ^ n) \<le> \<lfloor>x * 2 ^ n\<rfloor> + 1"
    by (simp add: round_half_even_def Let_def)
  then have "of_int m \<le> (of_int (\<lfloor>x * 2 ^ n\<rfloor> + 1) :: rat)" unfolding m by (simp only: of_int_le_iff)
  also have "\<dots> \<le> x * 2 ^ n + 1" by simp
  finally have "of_int m / 2 ^ n \<le> (x * 2 ^ n + 1) / 2 ^ n" by (simp add: divide_right_mono)
  also have "\<dots> = x + 1 / 2 ^ n" by (simp add: field_simps)
  also have "\<dots> \<le> x + 1" using p1 by (simp add: field_simps)
  also have "\<dots> < 2 ^ 53 + 1" using x53 by simp
  also have "\<dots> \<le> 2 ^ 1024" by simp
  finally have small: "\<not> (2 ^ 1024 \<le> of_int m / (2::rat) ^ n)" by simp
  show ?thesis unfolding fl_def Let_def r using pos small by simp
qed






text \<open>
  The model rounds where the source does: with pledges of 97 and 203 on a remaining
  amount of 1050, the share \<^verbatim>\<open>97 / 300\<close> and its product with 1050 are rounded to
  binary64, the product is just below 339.5, and the payout is 339 (340 in exact
  arithmetic).
\<close>

lemma payout_rounds_in_binary64:
  "Math_round (js_mul (Num 1050) (js_div (Num 97) (Num 300))) = Num 339"
proof -
  have s: "fl (97 / 300) = Num (of_int 5824655518065841 / 2 ^ 54)"
    by (rule fl_below_one_spacing) (simp_all add: round_half_even_def)
  have p: "fl (1050 * (of_int 5824655518065841 / 2 ^ 54))
             = Num (of_int 5972547162079231 / 2 ^ 44)"
    by (rule fl_below_one_spacing) (simp_all add: round_half_even_def)
  show ?thesis using s p by simp
qed

subsection \<open>Projections of the screen's state\<close>

lemma wallet_onStore [simp]: "wallet (onStore f app) = wallet app"
  by (simp add: onStore_def)

lemma store_onStore [simp]: "store (onStore f app) = f (store app)"
  by (simp add: onStore_def)

lemma authUser_onStore [simp]: "authUser (onStore f app) = authUser app"
  by (simp add: onStore_def)

lemma wallet_onWallet [simp]: "wallet (onWallet f app) = f (wallet app)"
  by (simp add: onWallet_def)

lemma store_onWallet [simp]: "store (onWallet f app) = store app"
  by (simp add: onWallet_def)

lemma authUser_onWallet [simp]: "authUser (onWallet f app) = authUser app"
  by (simp add: onWallet_def)

subsection \<open>Wallet operations\<close>

lemma getOrCreateWallet_upd:
  "getOrCreateWallet (ws(u \<mapsto> w)) u' = (if u' = u then w else getOrCreateWallet ws u')"
  by (simp add: getOrCreateWallet_def)

lemma getBalance_topup:
  "getBalance (topupWallet env u a l w) u' =
     (if u' = u then js_add (getBalance w u) a else getBalance w u')"
  by (simp add: getBalance_def topupWallet_def getOrCreateWallet_upd Let_def)

lemma getBalance_deduct:
  "getBalance (deductWallet env u a l w) u' =
     (if u' = u then Math_max (Num 0) (js_sub (getBalance w u) a) else getBalance w u')"
  by (simp add: getBalance_def deductWallet_def getOrCreateWallet_upd Let_def)


subsection \<open>Store operations seen through the getters\<close>

lemma getPledges_removePledge:
  "getPledgesForVenture (removePledge v u s) v' =
     (if v' = v then filter (\<lambda>p. pl_authUsername p \<noteq> u) (getPledgesForVenture s v)
      else getPledgesForVenture s v')"
  by (simp add: getPledgesForVenture_def removePledge_def orEmpty_def Let_def)

lemma getPledges_recordPledge:
  "getPledgesForVenture (recordPledge p s) v' =
     (if v' = pl_ventureId p
      then filter (\<lambda>q. pl_authUsername q \<noteq> pl_authUsername p)
             (getPledgesForVenture s (pl_ventureId p)) @ [p]
      else getPledgesForVenture s v')"
  by (simp add: getPledgesForVenture_def recordPledge_def orEmpty_def Let_def)

lemma getPledges_addVentureTx [simp]:
  "getPledgesForVenture (addVentureTx v tx s) v' = getPledgesForVenture s v'"
  by (simp add: getPledgesForVenture_def addVentureTx_def Let_def)

lemma getVentureTxs_addVentureTx:
  "getVentureTxs (addVentureTx v tx s) v' =
     (if v' = v then tx # getVentureTxs s v else getVentureTxs s v')"
  by (simp add: getVentureTxs_def addVentureTx_def orEmpty_def Let_def)

lemma getVentureTxs_removePledge [simp]:
  "getVentureTxs (removePledge v u s) v' = getVentureTxs s v'"
  by (simp add: getVentureTxs_def removePledge_def Let_def)

lemma getVentureTxs_recordPledge [simp]:
  "getVentureTxs (recordPledge p s) v' = getVentureTxs s v'"
  by (simp add: getVentureTxs_def recordPledge_def Let_def)

lemma find_filter_neg_append:
  "P x \<Longrightarrow> find P (filter (\<lambda>y. \<not> P y) xs @ [x]) = Some x"
  by (induction xs) simp_all


lemma filter_filter_neg: "filter P (filter (\<lambda>y. \<not> P y) xs) = []"
  by (induction xs) simp_all

subsection \<open>The refund path\<close>




lemma refund_steps:
  assumes f: "find (\<lambda>p. pl_authUsername p = u)
                (getPledgesForVenture (store app) (v_id venture)) = Some pledge"
    and pos: "\<not> js_le (pl_amount pledge) (Num 0)"
  shows "handleMemberRefund env venture u d app =
           onStore (addVentureTx (v_id venture)
                     \<lparr> tx_id = ''tx-refund-'' @ env_now env,
                       tx_ventureId = v_id venture,
                       tx_type = refund,
                       tx_username = d,
                       tx_amount = pl_amount pledge,
                       tx_description = [Lit ''Refund on leaving/removal''],
                       tx_timestamp = env_iso env \<rparr>)
             (onStore (removePledge (v_id venture) u)
               (onWallet (topupWallet env u (pl_amount pledge)
                            (''Refund from '' @ v_name venture)) app))"
  using f pos by (simp add: handleMemberRefund_def Let_def)



subsection \<open>The concrete session, evaluated\<close>

lemma app_seed_pledges: "getPledgesForVenture (store app_seed) v = []"
  by (simp add: app_seed_def getPledgesForVenture_def orEmpty_def)

lemma app_seed_balance: "getBalance (wallet app_seed) ''abhijeet'' = Num 5000"
  by (simp add: app_seed_def getBalance_def getOrCreateWallet_def INITIAL_BALANCES_def)

lemma venture_v8_id: "v_id venture_v8 = ''v8''"
  by (simp add: venture_v8_def)

lemma app_pledged_pledges:
  "getPledgesForVenture (store app_pledged) ''v8'' =
     [\<lparr> pl_authUsername = ''abhijeet'', pl_displayName = ''Abhijeet P.'',
        pl_amount = Num 350, pl_ventureId = ''v8'' \<rparr>]"
  by (simp add: app_pledged_def handlePledgeDeduct_def Let_def getPledges_recordPledge
        venture_v8_id app_seed_pledges)

lemma app_pledged_balance: "getBalance (wallet app_pledged) ''abhijeet'' = Num 4650"
  by (simp add: app_pledged_def handlePledgeDeduct_def Let_def getBalance_deduct
        app_seed_balance js_sub_def Math_max_def)

lemma completionRemaining_v8: "completionRemaining ''v8'' = Num 1050"
  by (simp add: completionRemaining_def MOCK_TRANSACTIONS_def sumAmounts_def js_sub_def
        Math_max_def)

lemma getPledges_updateVentureStatus [simp]:
  "getPledgesForVenture (updateVentureStatus i st s) v = getPledgesForVenture s v"
  by (simp add: getPledgesForVenture_def updateVentureStatus_def)

lemma getVentureTxs_updateVentureStatus [simp]:
  "getVentureTxs (updateVentureStatus i st s) v = getVentureTxs s v"
  by (simp add: getVentureTxs_def updateVentureStatus_def)

lemma getJoinRequests_updateVentureStatus [simp]:
  "getJoinRequestsForVenture (updateVentureStatus i st s) v = getJoinRequestsForVenture s v"
  by (simp add: getJoinRequestsForVenture_def updateVentureStatus_def)

lemma getJoinRequests_addVentureTx [simp]:
  "getJoinRequestsForVenture (addVentureTx v tx s) v' = getJoinRequestsForVenture s v'"
  by (simp add: getJoinRequestsForVenture_def addVentureTx_def Let_def)

lemma getJoinRequests_removePledge [simp]:
  "getJoinRequestsForVenture (removePledge v u s) v' = getJoinRequestsForVenture s v'"
  by (simp add: getJoinRequestsForVenture_def removePledge_def Let_def)

lemma getJoinRequests_recordPledge [simp]:
  "getJoinRequestsForVenture (recordPledge p s) v' = getJoinRequestsForVenture s v'"
  by (simp add: getJoinRequestsForVenture_def recordPledge_def Let_def)

lemma ventures_removePledge [simp]: "ventures (removePledge v u s) = ventures s"
  by (simp add: removePledge_def Let_def)

lemma ventures_addVentureTx [simp]: "ventures (addVentureTx v tx s) = ventures s"
  by (simp add: addVentureTx_def Let_def)

lemma ventures_recordPledge [simp]: "ventures (recordPledge p s) = ventures s"
  by (simp add: recordPledge_def Let_def)

lemma applyPatch_status_only:
  "applyPatch v \<lparr> patch_id = None, patch_name = None, patch_status = Some status,
         patch_isFree = None, patch_budget = None, patch_currentFunding = None,
         patch_eac = None, patch_ownerName = None \<rparr> = v \<lparr> v_status := status \<rparr>"
  by (simp add: applyPatch_def orElse_def)

lemma ventures_updateVentureStatus:
  "ventures (updateVentureStatus ident status state)
     = map (\<lambda>v. if v_id v = ident then v \<lparr> v_status := status \<rparr> else v) (ventures state)"
  by (simp add: updateVentureStatus_def applyPatch_status_only)

lemma app_pledged_authUser:
  "authUser app_pledged = Some \<lparr> u_username = ''priya'', u_displayName = ''Priya M.'' \<rparr>"
  by (simp add: app_pledged_def handlePledgeDeduct_def Let_def app_seed_def)

lemma app_seed_txs:
  "map (\<lambda>t. (tx_type t, tx_amount t)) (getVentureTxs (store app_seed) ''v8'')
     = [(contribution, Num 700), (contribution, Num 350)]"
  by (simp add: app_seed_def getVentureTxs_def orEmpty_def MOCK_TRANSACTIONS_def)

lemma app_pledged_txs:
  "map (\<lambda>t. (tx_type t, tx_amount t)) (getVentureTxs (store app_pledged) ''v8'')
     = [(contribution, Num 350), (contribution, Num 700), (contribution, Num 350)]"
  by (simp add: app_pledged_def handlePledgeDeduct_def Let_def getVentureTxs_addVentureTx
        venture_v8_id app_seed_txs)

lemmas completion_eval =
  app_completed_def onMarkComplete_def handleVentureCompletion_def Let_def
  venture_v8_id app_pledged_pledges completionRemaining_v8 payoutPledge_def
  app_pledged_authUser js_gt_def

lemma app_seed_ledger:
  "getVentureTxs (store app_seed) ''v8'' = filter (\<lambda>t. tx_ventureId t = ''v8'') MOCK_TRANSACTIONS"
  by (simp add: app_seed_def getVentureTxs_def orEmpty_def)

lemma app_pledged_ledger:
  "getVentureTxs (store app_pledged) ''v8'' =
     \<lparr> tx_id = ''tx-pledge-'' @ env_now env1, tx_ventureId = ''v8'', tx_type = contribution,
       tx_username = ''Abhijeet P.'', tx_amount = Num 350,
       tx_description = [Lit ''Pledge on joining''], tx_timestamp = env_iso env1 \<rparr>
     # filter (\<lambda>t. tx_ventureId t = ''v8'') MOCK_TRANSACTIONS"
  by (simp add: app_pledged_def handlePledgeDeduct_def Let_def getVentureTxs_addVentureTx
        venture_v8_id app_seed_ledger)

lemma app_seed_requests:
  "getJoinRequestsForVenture (store app_seed) ''v8'' = [request_abhijeet, request_meera]"
  by (simp add: app_seed_def getJoinRequestsForVenture_def orEmpty_def)

lemma app_pledged_requests:
  "getJoinRequestsForVenture (store app_pledged) ''v8'' = [request_abhijeet, request_meera]"
  by (simp add: app_pledged_def handlePledgeDeduct_def Let_def app_seed_requests)

lemma app_pledged_ventures: "ventures (store app_pledged) = [venture_v8]"
  by (simp add: app_pledged_def handlePledgeDeduct_def Let_def app_seed_def)

subsection \<open>Refund on removal or departure\<close>



subsection \<open>Pledge on approval, then refund\<close>

text \<open>
  The fractional wallet: its balance is the binary64 value of 4999.8, which is also what
  deducting a pitch of 0.2 from 5000 leaves, and the pitch is the binary64 value of
  256.02.
\<close>

lemma balance_fraction_parsed: "fl (24999 / 5) = balance_fraction"
proof -
  have "fl (24999 / 5) = Num (of_int 5497338236554445 / 2 ^ 40)"
    by (rule fl_below_one_spacing) (simp_all add: round_half_even_def)
  then show ?thesis by (simp add: balance_fraction_def)
qed

lemma pitch_fraction_parsed: "fl (12801 / 50) = pitch_fraction"
proof -
  have "fl (12801 / 50) = Num (of_int 4503951471091384 / 2 ^ 44)"
    by (rule fl_below_one_spacing) (simp_all add: round_half_even_def)
  then show ?thesis by (simp add: pitch_fraction_def)
qed

lemma balance_fraction_reached:
  "Math_max (Num 0) (js_sub (Num 5000) (fl (1 / 5))) = balance_fraction"
proof -
  have p: "fl (1 / 5) = Num (of_int 7205759403792794 / 2 ^ 55)"
    by (rule fl_below_one_spacing) (simp_all add: round_half_even_def)
  have "fl (5000 - of_int 7205759403792794 / 2 ^ 55) = Num (of_int 5497338236554445 / 2 ^ 40)"
    by (rule fl_below_one_spacing) (simp_all add: round_half_even_def)
  then show ?thesis
    unfolding p by (simp add: js_sub_def balance_fraction_def Math_max_def)
qed

lemma fraction_sub:
  "js_sub (Num (5497338236554445 / 1099511627776)) (Num (562993933886423 / 2199023255552))
     = Num (2607920634805617 / 549755813888)"
proof -
  have "fl (5497338236554445 / 1099511627776 - 562993933886423 / 2199023255552)
          = Num (of_int 5215841269611234 / 2 ^ 40)"
    by (rule fl_below_one_spacing) (simp_all add: round_half_even_def)
  then show ?thesis by (simp add: js_sub_def)
qed

lemma fraction_add:
  "js_add (Num (2607920634805617 / 549755813888)) (Num (562993933886423 / 2199023255552))
     = Num (2748669118277223 / 549755813888)"
proof -
  have "fl (2607920634805617 / 549755813888 + 562993933886423 / 2199023255552)
          = Num (of_int 5497338236554446 / 2 ^ 40)"
    by (rule fl_below_one_spacing) (simp_all add: round_half_even_def)
  then show ?thesis by simp
qed

lemma quantum_above_2_53: "quantum 9007199254740993 = 2"
proof -
  have "quantum_up 9007199254740993 2 (Suc 0) = 2"
    by (subst quantum_up.simps) simp
  moreover have "quantum_up 9007199254740993 1 0 = quantum_up 9007199254740993 (2 * 1) (Suc 0)"
    by (subst quantum_up.simps) simp
  ultimately show ?thesis by (simp add: quantum_def)
qed

lemma fl_above_2_53: "fl 9007199254740993 = Num 9007199254740992"
  by (simp add: fl_def quantum_above_2_53 round_half_even_def Let_def)

lemma large_sub: "js_sub (Num 9007199254740994) (Num 1) = Num 9007199254740992"
  by (simp add: js_sub_def fl_above_2_53)

lemma large_add: "js_add (Num 9007199254740992) (Num 1) = Num 9007199254740992"
  by (simp add: fl_above_2_53)

lemma pledge_then_refund_balance:
  assumes "\<not> js_le p (Num 0)"
  shows "getBalance (wallet (handleMemberRefund env' venture u d'
                        (handlePledgeDeduct env venture u d p app))) u
         = js_add (Math_max (Num 0) (js_sub (getBalance (wallet app) u) p)) p"
proof -
  let ?pl = "\<lparr> pl_authUsername = u, pl_displayName = d, pl_amount = p,
               pl_ventureId = v_id venture \<rparr>"
  let ?app1 = "handlePledgeDeduct env venture u d p app"
  have pl1: "getPledgesForVenture (store ?app1) (v_id venture)
               = filter (\<lambda>q. pl_authUsername q \<noteq> u)
                   (getPledgesForVenture (store app) (v_id venture)) @ [?pl]"
    by (simp add: handlePledgeDeduct_def Let_def getPledges_recordPledge)
  have f1: "find (\<lambda>q. pl_authUsername q = u)
              (getPledgesForVenture (store ?app1) (v_id venture)) = Some ?pl"
    unfolding pl1 by (rule find_filter_neg_append) simp
  have pos: "\<not> js_le (pl_amount ?pl) (Num 0)" using assms by simp
  have w1: "getBalance (wallet ?app1) u = Math_max (Num 0) (js_sub (getBalance (wallet app) u) p)"
    by (simp add: handlePledgeDeduct_def Let_def getBalance_deduct)
  show ?thesis
    by (simp add: refund_steps[OF f1 pos, of env' d'] getBalance_topup w1)
qed

text \<open>
  Claim C5 as stated fails on the code: amounts and balances are binary64 numbers, the
  debit and the credit each round, and \<open>(b - p) + p\<close> need not be \<open>b\<close>. With a balance
  of 4999.8 and a pitch of 256.02 (so \<open>0 < p \<le> b\<close>) the pledge followed by the refund
  leaves 4999.800000000001; with the integer balance 9007199254740994 and a pitch of 1
  it leaves 9007199254740992.
\<close>

theorem pledge_then_refund_drifts:
  "getBalance (wallet app_fraction) ''abhijeet'' = Num (5497338236554445 / 1099511627776)
   \<and> js_gt pitch_fraction (Num 0)
   \<and> js_le pitch_fraction (getBalance (wallet app_fraction) ''abhijeet'')
   \<and> getBalance (wallet (handleMemberRefund env2 venture_v8 ''abhijeet'' ''Abhijeet P.''
          (handlePledgeDeduct env1 venture_v8 ''abhijeet'' ''Abhijeet P.'' pitch_fraction
             app_fraction))) ''abhijeet''
       = Num (2748669118277223 / 549755813888)
   \<and> Num (2748669118277223 / 549755813888) \<noteq> Num (5497338236554445 / 1099511627776)
   \<and> getBalance (wallet app_large) ''abhijeet'' = Num 9007199254740994
   \<and> js_le (Num 1) (getBalance (wallet app_large) ''abhijeet'')
   \<and> getBalance (wallet (handleMemberRefund env2 venture_v8 ''abhijeet'' ''Abhijeet P.''
          (handlePledgeDeduct env1 venture_v8 ''abhijeet'' ''Abhijeet P.'' (Num 1)
             app_large))) ''abhijeet''
       = Num 9007199254740992
   \<and> Num 9007199254740992 \<noteq> Num 9007199254740994"
proof -
  have b1: "getBalance (wallet app_fraction) ''abhijeet'' = Num (5497338236554445 / 1099511627776)"
    by (simp add: app_fraction_def getBalance_def getOrCreateWallet_def balance_fraction_def)
  have b2: "getBalance (wallet app_large) ''abhijeet'' = Num 9007199254740994"
    by (simp add: app_large_def getBalance_def getOrCreateWallet_def)
  have p1: "\<not> js_le pitch_fraction (Num 0)"
    by (simp add: pitch_fraction_def js_le_def)
  have p2: "\<not> js_le (Num 1) (Num 0)"
    by (simp add: js_le_def)
  have r1: "getBalance (wallet (handleMemberRefund env2 venture_v8 ''abhijeet'' ''Abhijeet P.''
          (handlePledgeDeduct env1 venture_v8 ''abhijeet'' ''Abhijeet P.'' pitch_fraction
             app_fraction))) ''abhijeet''
       = Num (2748669118277223 / 549755813888)"
    unfolding pledge_then_refund_balance[OF p1] b1
    by (simp add: pitch_fraction_def fraction_sub fraction_add Math_max_def del: js_add.simps)
  have r2: "getBalance (wallet (handleMemberRefund env2 venture_v8 ''abhijeet'' ''Abhijeet P.''
          (handlePledgeDeduct env1 venture_v8 ''abhijeet'' ''Abhijeet P.'' (Num 1)
             app_large))) ''abhijeet''
       = Num 9007199254740992"
    unfolding pledge_then_refund_balance[OF p2] b2
    by (simp add: large_sub large_add Math_max_def del: js_add.simps)
  show ?thesis
    unfolding b1 b2 r1 r2
    by (simp add: pitch_fraction_def js_gt_def js_le_def)
qed

text \<open>
  Claim C5, amended. For every user whose wallet balance is an integer \<open>b\<close> with
  \<open>b \<le> 9007199254740991\<close> (\<^verbatim>\<open>Number.MAX_SAFE_INTEGER\<close>) and every integer pitch \<open>p\<close> with
  \<open>0 < p \<le> b\<close>: the pledge deduction \<^verbatim>\<open>handlePledgeDeduct\<close> debits the wallet to
  \<open>b - p\<close>, records the pledge for (venture, user) and puts a \<^verbatim>\<open>contribution\<close>
  transaction of \<open>p\<close> on the ledger; the refund path \<^verbatim>\<open>handleMemberRefund\<close> run on the
  resulting state brings the balance back to exactly \<open>b\<close> and leaves no pledge of that
  user on the venture.
\<close>

theorem pledge_then_refund_restores_balance:
  fixes env env' :: Env and venture :: Venture and u d d' :: string and app :: App
    and p b :: int
  assumes bal: "getBalance (wallet app) u = Num (of_int b)"
    and enough: "p \<le> b" and pos: "0 < p" and safe: "b \<le> 9007199254740991"
  defines "vid \<equiv> v_id venture"
  defines "app1 \<equiv> handlePledgeDeduct env venture u d (Num (of_int p)) app"
  defines "app2 \<equiv> handleMemberRefund env' venture u d' app1"
  shows "getBalance (wallet app1) u = Num (of_int (b - p))
       \<and> find (\<lambda>q. pl_authUsername q = u) (getPledgesForVenture (store app1) vid)
           = Some \<lparr> pl_authUsername = u, pl_displayName = d, pl_amount = Num (of_int p),
                    pl_ventureId = vid \<rparr>
       \<and> (\<exists>tx. getVentureTxs (store app1) vid = tx # getVentureTxs (store app) vid
                \<and> tx_type tx = contribution \<and> tx_amount tx = Num (of_int p))
       \<and> getBalance (wallet app2) u = Num (of_int b)
       \<and> filter (\<lambda>q. pl_authUsername q = u) (getPledgesForVenture (store app2) vid) = []"
proof -
  let ?pl = "\<lparr> pl_authUsername = u, pl_displayName = d, pl_amount = Num (of_int p),
               pl_ventureId = vid \<rparr>"
  have diff: "fl (of_int b - of_int p) = Num (of_int b - of_int p)"
    using fl_of_int [of "b - p"] enough pos safe by simp
  have sum_back: "fl (of_int b) = Num (of_int b)"
    using fl_of_int [of b] enough pos safe by simp
  have floor0: "Math_max (Num 0) (Num (of_int b - of_int p)) = Num (of_int b - of_int p)"
    using enough by (auto simp add: Math_max_def)
  have w1: "getBalance (wallet app1) u = Num (of_int (b - p))"
    using bal
    by (simp add: app1_def handlePledgeDeduct_def Let_def getBalance_deduct js_sub_def
          diff floor0)
  have pl1: "getPledgesForVenture (store app1) vid
               = filter (\<lambda>q. pl_authUsername q \<noteq> u) (getPledgesForVenture (store app) vid) @ [?pl]"
    by (simp add: app1_def vid_def handlePledgeDeduct_def Let_def getPledges_recordPledge)
  have f1: "find (\<lambda>q. pl_authUsername q = u) (getPledgesForVenture (store app1) vid) = Some ?pl"
    unfolding pl1 by (rule find_filter_neg_append) simp
  have tx1: "\<exists>tx. getVentureTxs (store app1) vid = tx # getVentureTxs (store app) vid
                \<and> tx_type tx = contribution \<and> tx_amount tx = Num (of_int p)"
    by (simp add: app1_def vid_def handlePledgeDeduct_def Let_def getVentureTxs_addVentureTx)
  have f1': "find (\<lambda>q. pl_authUsername q = u)
               (getPledgesForVenture (store app1) (v_id venture)) = Some ?pl"
    using f1 by (simp add: vid_def)
  have pos': "\<not> js_le (pl_amount ?pl) (Num 0)" using pos by (simp add: js_le_def)
  note st = refund_steps[OF f1' pos', of env' d']
  have w2: "getBalance (wallet app2) u = Num (of_int b)"
    using w1 by (simp add: app2_def st getBalance_topup sum_back)
  have "getPledgesForVenture (store app2) vid
          = filter (\<lambda>q. pl_authUsername q \<noteq> u) (getPledgesForVenture (store app1) vid)"
    by (simp add: app2_def vid_def st getPledges_removePledge)
  then have pl2: "filter (\<lambda>q. pl_authUsername q = u) (getPledgesForVenture (store app2) vid) = []"
    by (simp add: filter_filter_neg)
  from w1 f1 tx1 w2 pl2 show ?thesis by blast
qed

theorem pledge_then_refund_restores_balance_witness:
  "getBalance (wallet app_seed) ''abhijeet'' = Num 5000
   \<and> getBalance (wallet app_pledged) ''abhijeet'' = Num 4650
   \<and> getBalance (wallet (handleMemberRefund env2 venture_v8 ''abhijeet'' ''Abhijeet P.'' app_pledged))
        ''abhijeet'' = Num 5000
   \<and> filter (\<lambda>q. pl_authUsername q = ''abhijeet'')
        (getPledgesForVenture
          (store (handleMemberRefund env2 venture_v8 ''abhijeet'' ''Abhijeet P.'' app_pledged))
          ''v8'') = []"
  using pledge_then_refund_restores_balance
          [of app_seed "''abhijeet''" 5000 350 env1 venture_v8 "''Abhijeet P.''" env2 "''Abhijeet P.''"]
  by (simp add: app_seed_balance venture_v8_id app_pledged_def)

subsection \<open>Wallet deduction\<close>




subsection \<open>Permission check\<close>

text \<open>
  Claim C7. For every privilege (\<open>None\<close> included) and every permission,
  \<^verbatim>\<open>can(privilege, permission, true)\<close> is true. With \<^verbatim>\<open>isOwner = false\<close>, \<^verbatim>\<open>can\<close> is
  membership in the privilege's row of \<^verbatim>\<open>PRIVILEGE_PERMISSIONS\<close>, so it is false for a
  permission outside the row; \<^verbatim>\<open>can('viewer', 'COMPLETE_TASK', false)\<close> is false and
  \<^verbatim>\<open>can(null, 'VIEW_VENTURE', false)\<close> is true.
\<close>

theorem can_owner_override_and_table_lookup:
  "(\<forall>privilege permission. can privilege permission True)
   \<and> (\<forall>privilege permission.
         can privilege permission False
           = (permission \<in> set (PRIVILEGE_PERMISSIONS privilege)))
   \<and> (\<forall>privilege permission.
         permission \<notin> set (PRIVILEGE_PERMISSIONS privilege)
           \<longrightarrow> \<not> can privilege permission False)
   \<and> can (Some viewer) COMPLETE_TASK False = False
   \<and> can None VIEW_VENTURE False = True"
  by (simp add: can_def)

theorem can_owner_override_and_table_lookup_witness:
  "can (Some viewer) CHANGE_VENTURE_STATUS True
   \<and> \<not> can (Some buyer) MANAGE_REQUESTS False
   \<and> can (Some admin) MANAGE_REQUESTS False
   \<and> can None CHANGE_VENTURE_STATUS True"
  using can_owner_override_and_table_lookup by simp

subsection \<open>Has the user asked to join?\<close>

text \<open>
  Claim C10. Called without an \<^verbatim>\<open>authUsername\<close>, \<^verbatim>\<open>hasRequestedJoin\<close> is true exactly
  when the venture has at least one join request, whatever its status and whoever sent
  it: no status and no identity is tested.
\<close>

theorem hasRequestedJoin_without_user:
  "hasRequestedJoin state ventureId None
     = (\<exists>r. r \<in> set (getJoinRequestsForVenture state ventureId))
   \<and> hasRequestedJoin state ventureId None
     = (getJoinRequestsForVenture state ventureId \<noteq> [])"
  by (cases "orEmpty (joinRequests state ventureId)")
     (auto simp add: hasRequestedJoin_def getJoinRequestsForVenture_def)

theorem hasRequestedJoin_without_user_witness:
  "hasRequestedJoin
     ((store app_seed) \<lparr> joinRequests := [''v8'' \<mapsto> [request_abhijeet]] \<rparr>) ''v8'' None
   \<and> \<not> hasRequestedJoin
     ((store app_seed) \<lparr> joinRequests := [''v8'' \<mapsto> [request_abhijeet]] \<rparr>) ''v8'' (Some ''abhijeet'')
   \<and> \<not> hasRequestedJoin (store app_seed) ''v1'' None"
  using hasRequestedJoin_without_user
          [of "(store app_seed) \<lparr> joinRequests := [''v8'' \<mapsto> [request_abhijeet]] \<rparr>" "''v8''"]
        hasRequestedJoin_without_user [of "store app_seed" "''v1''"]
  by (simp add: getJoinRequestsForVenture_def orEmpty_def app_seed_def hasRequestedJoin_def
        request_abhijeet_def isPending_def)

subsection \<open>What the completion handler changes, for every state\<close>

text \<open>
  Three facts about \<^verbatim>\<open>handleVentureCompletion\<close> that hold in every state: it leaves
  the join requests as they are, also together with the status update of the
  "Mark Complete" button; it leaves no pledge on the venture; and the wallet balance of
  anybody but the logged-in user is what it was before.
\<close>

lemma fold_removePledge_joinRequests:
  "joinRequests (store (fold (\<lambda>p. onStore (removePledge v (pl_authUsername p))) ps app))
     = joinRequests (store app)"
  by (induction ps arbitrary: app) (simp_all add: removePledge_def Let_def)

lemma payoutPledge_joinRequests:
  "joinRequests (store (payoutPledge env venture v r t p app)) = joinRequests (store app)"
  by (simp add: payoutPledge_def Let_def addVentureTx_def)

lemma fold_payoutPledge_joinRequests:
  "joinRequests (store (fold (payoutPledge env venture v r t) ps app))
     = joinRequests (store app)"
  by (induction ps arbitrary: app) (simp_all add: payoutPledge_joinRequests)

lemma completion_never_rejects:
  "joinRequests (store (onMarkComplete env venture app)) = joinRequests (store app)"
  by (simp add: onMarkComplete_def handleVentureCompletion_def Let_def
        fold_removePledge_joinRequests fold_payoutPledge_joinRequests updateVentureStatus_def)

lemma fold_removePledge_pledges:
  "getPledgesForVenture (store (fold (\<lambda>p. onStore (removePledge v (pl_authUsername p))) ps app)) v
     = filter (\<lambda>q. pl_authUsername q \<notin> pl_authUsername ` set ps)
         (getPledgesForVenture (store app) v)"
proof (induction ps arbitrary: app)
  case Nil
  then show ?case by simp
next
  case (Cons p ps)
  show ?case
    by (simp add: Cons.IH getPledges_removePledge)
qed

lemma payoutPledge_pledges:
  "getPledgesForVenture (store (payoutPledge env venture v r t p app)) v'
     = getPledgesForVenture (store app) v'"
  by (simp add: payoutPledge_def Let_def)

lemma fold_payoutPledge_pledges:
  "getPledgesForVenture (store (fold (payoutPledge env venture v r t) ps app)) v'
     = getPledgesForVenture (store app) v'"
  by (induction ps arbitrary: app) (simp_all add: payoutPledge_pledges)

lemma completion_clears_pledges:
  "getPledgesForVenture (store (handleVentureCompletion env venture v app)) v = []"
  by (simp add: handleVentureCompletion_def Let_def fold_removePledge_pledges
        fold_payoutPledge_pledges)


lemma authUser_payoutPledge [simp]:
  "authUser (payoutPledge env venture v r t p app) = authUser app"
  by (simp add: payoutPledge_def Let_def)

lemma payoutPledge_wallet_other:
  "map_option u_username (authUser app) \<noteq> Some u \<Longrightarrow>
     wallets (wallet (payoutPledge env venture v r t p app)) u = wallets (wallet app) u"
  by (auto simp add: payoutPledge_def Let_def topupWallet_def)

lemma fold_payoutPledge_wallet_other:
  "map_option u_username (authUser app) \<noteq> Some u \<Longrightarrow>
     wallets (wallet (fold (payoutPledge env venture v r t) ps app)) u = wallets (wallet app) u"
  by (induction ps arbitrary: app) (simp_all add: payoutPledge_wallet_other)

lemma fold_removePledge_wallet [simp]:
  "wallet (fold (\<lambda>p. onStore (removePledge v (pl_authUsername p))) ps app) = wallet app"
  by (induction ps arbitrary: app) simp_all

lemma completion_pays_logged_in_user_only:
  "map_option u_username (authUser app) \<noteq> Some u \<Longrightarrow>
     getBalance (wallet (handleVentureCompletion env venture v app)) u = getBalance (wallet app) u"
  by (simp add: handleVentureCompletion_def Let_def getBalance_def getOrCreateWallet_def
        fold_payoutPledge_wallet_other)

subsection \<open>Settlement on completion\<close>

text \<open>
  Claim C1, evaluated on the concrete session. abhijeet holds the only pledge on
  \<^verbatim>\<open>v8\<close> (350) and his balance is 4650 after the pledge. priya, the logged-in owner,
  marks the venture complete: the payout computed for abhijeet is 1050 and one
  \<^verbatim>\<open>cashout\<close> transaction of 1050 is put on the ledger, but his wallet balance is still
  4650: the wallet is credited only when the pledger is the logged-in user.
\<close>

theorem completion_payout_not_credited:
  "getBalance (wallet app_pledged) ''abhijeet'' = Num 4650
   \<and> map (\<lambda>t. (tx_type t, tx_amount t)) (getVentureTxs (store app_completed) ''v8'')
       = [(cashout, Num 1050), (contribution, Num 350), (contribution, Num 700),
          (contribution, Num 350)]
   \<and> getBalance (wallet app_completed) ''abhijeet'' = Num 4650"
  by (simp add: completion_eval getVentureTxs_addVentureTx app_pledged_txs app_pledged_balance)

text \<open>
  Claim C2, evaluated on the concrete session. When priya marks \<^verbatim>\<open>v8\<close> complete the
  store's ledger holds three contributions (350 from the approved pledge, 700 and 350
  from the seed), no purchase, no cashout and no refund, so contributions minus
  purchases over the full ledger is 1400, which is also what the confirmation dialog
  shows. The remaining amount that \<^verbatim>\<open>handleVentureCompletion\<close> uses is 1050: it is
  computed from the seed list \<^verbatim>\<open>MOCK_TRANSACTIONS\<close>, which the pledge never enters.
\<close>

theorem completion_remaining_ignores_ledger:
  "summaryRemaining (store app_pledged) ''v8'' = Num 1400
   \<and> completionRemaining ''v8'' = Num 1050
   \<and> filter (\<lambda>t. tx_type t = cashout \<or> tx_type t = refund)
         (getVentureTxs (store app_pledged) ''v8'') = []"
  by (simp add: summaryRemaining_def completionRemaining_v8 sumAmounts_def Let_def
        app_pledged_ledger MOCK_TRANSACTIONS_def js_sub_def Math_max_def)

text \<open>
  Claim C3, evaluated on the concrete session. After "Mark Complete" the venture is
  finished and has no pledge left, but meera's join request is still pending: the
  handler never dispatches \<^verbatim>\<open>REJECT_ALL_PENDING_REQUESTS\<close>. Dispatching it on the
  resulting store would deny meera's request and leave abhijeet's approved one alone.
\<close>

theorem completion_keeps_pending_requests:
  "getPledgesForVenture (store app_completed) ''v8'' = []
   \<and> map v_status (ventures (store app_completed)) = [finished]
   \<and> map (\<lambda>r. (jr_authUsername r, jr_status r))
         (getJoinRequestsForVenture (store app_completed) ''v8'')
       = [(Some ''abhijeet'', Some approved), (Some ''meera'', Some pending)]
   \<and> map (\<lambda>r. (jr_authUsername r, jr_status r))
         (getJoinRequestsForVenture (rejectAllPendingRequests ''v8'' (store app_completed)) ''v8'')
       = [(Some ''abhijeet'', Some approved), (Some ''meera'', Some denied)]"
proof (intro conjI)
  show "getPledgesForVenture (store app_completed) ''v8'' = []"
    by (simp add: completion_eval getPledges_removePledge)
  show "map v_status (ventures (store app_completed)) = [finished]"
    by (simp add: completion_eval ventures_updateVentureStatus app_pledged_ventures)
  have jr: "getJoinRequestsForVenture (store app_completed) ''v8''
              = [request_abhijeet, request_meera]"
    by (simp add: completion_eval app_pledged_requests)
  show "map (\<lambda>r. (jr_authUsername r, jr_status r))
         (getJoinRequestsForVenture (store app_completed) ''v8'')
       = [(Some ''abhijeet'', Some approved), (Some ''meera'', Some pending)]"
    by (simp add: jr request_abhijeet_def request_meera_def)
  have "getJoinRequestsForVenture (rejectAllPendingRequests ''v8'' (store app_completed)) ''v8''
          = map (\<lambda>r. if isPending r then r \<lparr> jr_status := Some denied \<rparr> else r)
              (getJoinRequestsForVenture (store app_completed) ''v8'')"
    by (simp add: getJoinRequestsForVenture_def rejectAllPendingRequests_def Let_def orEmpty_def)
  then show "map (\<lambda>r. (jr_authUsername r, jr_status r))
         (getJoinRequestsForVenture (rejectAllPendingRequests ''v8'' (store app_completed)) ''v8'')
       = [(Some ''abhijeet'', Some approved), (Some ''meera'', Some denied)]"
    by (simp add: jr request_abhijeet_def request_meera_def isPending_def)
qed


subsection \<open>Join requests\<close>

text \<open>
  Claim C8, evaluated on the concrete session. meera already has a pending request on
  \<^verbatim>\<open>v8\<close>. A second request of hers, with a fresh id as the screen generates it
  (\<^verbatim>\<open>jr-${Date.now()}\<close>), is added by \<^verbatim>\<open>ADD_JOIN_REQUEST\<close>: the reducer compares ids only,
  and the venture then holds two pending requests for (\<^verbatim>\<open>v8\<close>, meera).
\<close>

theorem duplicate_pending_request_accepted:
  "hasRequestedJoin (store app_seed) ''v8'' (Some ''meera'')
   \<and> map (\<lambda>r. (jr_id r, jr_authUsername r, jr_status r))
         (filter (\<lambda>r. jr_authUsername r = Some ''meera'' \<and> isPending r)
            (getJoinRequestsForVenture
               (addJoinRequest ''v8'' request_meera_again (store app_seed)) ''v8''))
       = [(''jr-1772351000000'', Some ''meera'', Some pending),
          (''jr-1772352000000'', Some ''meera'', Some pending)]"
  by (simp add: hasRequestedJoin_def addJoinRequest_def getJoinRequestsForVenture_def
        orEmpty_def app_seed_def Let_def isPending_def request_meera_again_def
        request_meera_def request_abhijeet_def)

subsection \<open>Venture status changes\<close>

lemma updated_has_status:
  assumes "v \<in> set (ventures (updateVentureStatus ident status state))" and "v_id v = ident"
  shows "v_status v = status"
proof -
  let ?f = "\<lambda>x. if v_id x = ident then x \<lparr> v_status := status \<rparr> else x"
  from assms(1) have "v \<in> ?f ` set (ventures state)"
    unfolding ventures_updateVentureStatus set_map .
  then obtain x where x: "v = ?f x" ..
  show ?thesis
  proof (cases "v_id x = ident")
    case True
    then have "v = x \<lparr> v_status := status \<rparr>" using x by simp
    then show ?thesis by simp
  next
    case False
    then have "v = x" using x by simp
    with False assms(2) show ?thesis by simp
  qed
qed


lemma others_kept:
  assumes "v \<in> set (ventures state)" and "v_id v \<noteq> ident"
  shows "v \<in> set (ventures (updateVentureStatus ident status state))"
proof -
  let ?f = "\<lambda>x. if v_id x = ident then x \<lparr> v_status := status \<rparr> else x"
  have "?f v = v" using assms(2) by simp
  then have "v \<in> ?f ` set (ventures state)" using assms(1) by (rule image_eqI[OF sym])
  then show ?thesis unfolding ventures_updateVentureStatus set_map .
qed

lemma statusControls_allowed:
  assumes "s \<in> set (statusControls c venture)"
  shows "(v_status venture = proposed \<and> s = ongoing)
         \<or> (v_status venture = ongoing \<and> s = finished)"
  using assms by (auto simp add: statusControls_def split: if_splits)

lemma statusControls_finished:
  "v_status venture = finished \<Longrightarrow> statusControls c venture = []"
  by (simp add: statusControls_def)

text \<open>
  Claim C9 as stated fails on the store: a finished venture is set back to proposed.
  \<^verbatim>\<open>updateVentureStatus\<close> dispatches \<^verbatim>\<open>UPDATE_VENTURE\<close> with the patch \<^verbatim>\<open>{ status }\<close>, and
  the reducer merges the patch into every venture with that id, whatever its status.
\<close>

theorem finished_is_not_terminal_in_store:
  "map v_status (ventures (updateVentureStatus ''v8'' finished (store app_seed))) = [finished]
   \<and> map v_status (ventures (updateVentureStatus ''v8'' proposed
           (updateVentureStatus ''v8'' finished (store app_seed)))) = [proposed]"
  by (simp add: ventures_updateVentureStatus app_seed_def venture_v8_def)

text \<open>
  Who may change the status: \<^verbatim>\<open>canDo('CHANGE_VENTURE_STATUS')\<close> holds for the owner and
  for a co-owner, and for nobody else.
\<close>

lemma canDo_change_status:
  "canDo myPrivilege isOwnerFlag CHANGE_VENTURE_STATUS
     = (isOwnerFlag \<or> myPrivilege = Some co_owner)"
proof (cases myPrivilege)
  case None
  then show ?thesis by (simp add: canDo_def can_def)
next
  case (Some priv)
  then show ?thesis by (cases priv) (simp_all add: canDo_def can_def)
qed

text \<open>
  Claim C9, amended. \<^verbatim>\<open>updateVentureStatus\<close> rejects nothing: every venture with the
  given id gets the requested status, whatever its status was (finished included), and
  ventures with another id are kept as they are. The restriction to
  proposed\<open>\<rightarrow>\<close>ongoing and ongoing\<open>\<rightarrow>\<close>finished is made by the mission tab alone. To a
  caller with \<^verbatim>\<open>CHANGE_VENTURE_STATUS\<close> (through \<^verbatim>\<open>canDo\<close>: the owner or a co-owner) it
  offers exactly ongoing on a proposed venture, exactly finished on an ongoing one and
  nothing on a finished one; to a caller without the permission it offers nothing.
\<close>

theorem updateVentureStatus_unconditional:
  "ventures (updateVentureStatus ident status state)
     = map (\<lambda>v. if v_id v = ident then v \<lparr> v_status := status \<rparr> else v) (ventures state)
   \<and> (\<forall>v \<in> set (ventures (updateVentureStatus ident status state)).
         v_id v = ident \<longrightarrow> v_status v = status)
   \<and> (\<forall>v \<in> set (ventures state).
         v_id v \<noteq> ident \<longrightarrow> v \<in> set (ventures (updateVentureStatus ident status state)))
   \<and> (\<forall>s \<in> set (statusControls canChangeStatus venture).
         (v_status venture = proposed \<and> s = ongoing)
         \<or> (v_status venture = ongoing \<and> s = finished))
   \<and> (v_status venture = finished \<longrightarrow> statusControls canChangeStatus venture = [])
   \<and> statusControls False venture = []
   \<and> (v_status venture = proposed \<longrightarrow> statusControls True venture = [ongoing])
   \<and> (v_status venture = ongoing \<longrightarrow> statusControls True venture = [finished])
   \<and> missionStatusControls myPrivilege isOwnerFlag venture
       = statusControls (can myPrivilege CHANGE_VENTURE_STATUS
                           (isOwnerFlag \<or> myPrivilege = Some co_owner)) venture
   \<and> can myPrivilege CHANGE_VENTURE_STATUS (isOwnerFlag \<or> myPrivilege = Some co_owner)
       = (isOwnerFlag \<or> myPrivilege = Some co_owner)
   \<and> (\<not> can myPrivilege CHANGE_VENTURE_STATUS (isOwnerFlag \<or> myPrivilege = Some co_owner)
        \<longrightarrow> missionStatusControls myPrivilege isOwnerFlag venture = [])"
proof (intro conjI ballI impI)
  show "ventures (updateVentureStatus ident status state)
     = map (\<lambda>v. if v_id v = ident then v \<lparr> v_status := status \<rparr> else v) (ventures state)"
    by (rule ventures_updateVentureStatus)
next
  fix v assume "v \<in> set (ventures (updateVentureStatus ident status state))" "v_id v = ident"
  then show "v_status v = status" by (rule updated_has_status)
next
  fix v assume "v \<in> set (ventures state)" "v_id v \<noteq> ident"
  then show "v \<in> set (ventures (updateVentureStatus ident status state))" by (rule others_kept)
next
  fix s assume "s \<in> set (statusControls canChangeStatus venture)"
  then show "(v_status venture = proposed \<and> s = ongoing)
         \<or> (v_status venture = ongoing \<and> s = finished)" by (rule statusControls_allowed)
next
  assume "v_status venture = finished"
  then show "statusControls canChangeStatus venture = []" by (rule statusControls_finished)
next
  show "statusControls False venture = []" by (simp add: statusControls_def)
next
  assume "v_status venture = proposed"
  then show "statusControls True venture = [ongoing]" by (simp add: statusControls_def)
next
  assume "v_status venture = ongoing"
  then show "statusControls True venture = [finished]" by (simp add: statusControls_def)
next
  show "missionStatusControls myPrivilege isOwnerFlag venture
       = statusControls (can myPrivilege CHANGE_VENTURE_STATUS
                           (isOwnerFlag \<or> myPrivilege = Some co_owner)) venture"
    by (simp add: missionStatusControls_def canDo_def)
next
  show "can myPrivilege CHANGE_VENTURE_STATUS (isOwnerFlag \<or> myPrivilege = Some co_owner)
       = (isOwnerFlag \<or> myPrivilege = Some co_owner)"
    using canDo_change_status[of myPrivilege isOwnerFlag] by (simp add: canDo_def)
next
  assume "\<not> can myPrivilege CHANGE_VENTURE_STATUS (isOwnerFlag \<or> myPrivilege = Some co_owner)"
  then show "missionStatusControls myPrivilege isOwnerFlag venture = []"
    by (simp add: missionStatusControls_def canDo_def statusControls_def)
qed

theorem updateVentureStatus_unconditional_witness:
  "map v_status (ventures (updateVentureStatus ''v8'' ongoing
      (updateVentureStatus ''v8'' finished (store app_seed)))) = [ongoing]
   \<and> statusControls True (venture_v8 \<lparr> v_status := finished \<rparr>) = []
   \<and> statusControls True venture_v8 = [finished]
   \<and> missionStatusControls (Some admin) False venture_v8 = []
   \<and> missionStatusControls (Some co_owner) False venture_v8 = [finished]"
proof -
  note t = updateVentureStatus_unconditional
          [of "''v8''" ongoing "updateVentureStatus ''v8'' finished (store app_seed)"
              True "venture_v8 \<lparr> v_status := finished \<rparr>" "Some admin" False]
  note t' = updateVentureStatus_unconditional
          [of "''v8''" finished "store app_seed" True venture_v8 "Some admin" False]
  have a: "ventures (updateVentureStatus ''v8'' ongoing
             (updateVentureStatus ''v8'' finished (store app_seed)))
           = map (\<lambda>v. if v_id v = ''v8'' then v \<lparr> v_status := ongoing \<rparr> else v)
               (ventures (updateVentureStatus ''v8'' finished (store app_seed)))"
    by (rule t[THEN conjunct1])
  have b: "v_status (venture_v8 \<lparr> v_status := finished \<rparr>) = finished
           \<longrightarrow> statusControls True (venture_v8 \<lparr> v_status := finished \<rparr>) = []"
    by (rule t[THEN conjunct2, THEN conjunct2, THEN conjunct2, THEN conjunct2, THEN conjunct1])
  have c: "statusControls True (venture_v8 \<lparr> v_status := finished \<rparr>) = []"
    using b by simp
  have d: "map v_status (ventures (updateVentureStatus ''v8'' ongoing
      (updateVentureStatus ''v8'' finished (store app_seed)))) = [ongoing]"
    unfolding a by (simp add: ventures_updateVentureStatus app_seed_def venture_v8_def)
  have "v_status venture_v8 = ongoing \<longrightarrow> statusControls True venture_v8 = [finished]"
    by (rule t'[THEN conjunct2, THEN conjunct2, THEN conjunct2, THEN conjunct2,
                THEN conjunct2, THEN conjunct2, THEN conjunct2, THEN conjunct1])
  then have e: "statusControls True venture_v8 = [finished]"
    by (simp add: venture_v8_def)
  have "\<not> can (Some admin) CHANGE_VENTURE_STATUS (False \<or> Some admin = Some co_owner)
        \<longrightarrow> missionStatusControls (Some admin) False venture_v8 = []"
    by (rule t'[THEN conjunct2, THEN conjunct2, THEN conjunct2, THEN conjunct2,
                THEN conjunct2, THEN conjunct2, THEN conjunct2, THEN conjunct2,
                THEN conjunct2, THEN conjunct2])
  then have f: "missionStatusControls (Some admin) False venture_v8 = []"
    by (simp add: can_def)
  have g: "missionStatusControls (Some co_owner) False venture_v8 = [finished]"
    by (simp add: missionStatusControls_def canDo_def can_def statusControls_def venture_v8_def)
  from c d e f g show ?thesis by simp
qed

end
